theory Spec2Isabelle
  imports Complex_Main "HOL-Library.AList"
begin

section \<open>Python values, exceptions and the outside world\<close>

text \<open>
  The client works on dictionaries (scenario configurations, payloads, decoded JSON
  responses), so values that travel inside them are modelled dynamically.  \<open>PNone\<close> is
  Python's \<open>None\<close>; a \<open>dict\<close> is an association list in insertion order with string keys;
  a \<open>float\<close> is the real number the double denotes, and an arithmetic operation on
  floats rounds its exact result to the nearest double (\<open>double_of\<close> below; infinities and
  NaN are not modelled).
\<close>

datatype pyval =
    PNone
  | PBool bool
  | PInt int
  | PFloat real
  | PStr string
  | PList "pyval list"
  | PDict "(string \<times> pyval) list"

datatype error =
    TypeError
  | KeyError
  | AttributeError
  | ValueError
  | JSONDecodeError
  | NetworkError

text \<open>What \<open>requests.Session.post\<close> is called with, and what it answers.\<close>

record request =
  req_url :: string
  req_json :: pyval
  req_timeout :: pyval

record response =
  status_code :: int
  json_body :: "pyval option"   \<comment> \<open>\<open>None\<close>: \<open>response.json()\<close> raises\<close>

text \<open>
  The process state the code reads and writes: the state of the \<open>random\<close> module's global
  generator, and everything outside the process (wall clock, network, remote service).
\<close>

record ('g, 'x) world =
  rng :: 'g
  ext :: 'x

text \<open>
  The library and the service are parameters of the model: \<open>random.seed\<close>,
  \<open>random.randint\<close>, \<open>time.time\<close>, \<open>datetime.now().isoformat()\<close> and
  \<open>session.post\<close>.
\<close>

record ('g, 'x) env =
  rand_seed :: "int \<Rightarrow> 'g"
  rand_int :: "int \<Rightarrow> int \<Rightarrow> 'g \<Rightarrow> int \<times> 'g"
  time_time :: "'x \<Rightarrow> real \<times> 'x"
  now_isoformat :: "'x \<Rightarrow> string \<times> 'x"
  http_post :: "request \<Rightarrow> 'x \<Rightarrow> error + (response \<times> 'x)"

definition seed_rng :: "('g, 'x) env \<Rightarrow> int \<Rightarrow> ('g, 'x) world \<Rightarrow> ('g, 'x) world" where
  "seed_rng E s w = w\<lparr>rng := rand_seed E s\<rparr>"

definition randint :: "('g, 'x) env \<Rightarrow> int \<Rightarrow> int \<Rightarrow> ('g, 'x) world \<Rightarrow> int \<times> ('g, 'x) world" where
  "randint E a b w = (case rand_int E a b (rng w) of (v, g) \<Rightarrow> (v, w\<lparr>rng := g\<rparr>))"

definition read_clock :: "('g, 'x) env \<Rightarrow> ('g, 'x) world \<Rightarrow> real \<times> ('g, 'x) world" where
  "read_clock E w = (case time_time E (ext w) of (t, x) \<Rightarrow> (t, w\<lparr>ext := x\<rparr>))"

definition read_timestamp :: "('g, 'x) env \<Rightarrow> ('g, 'x) world \<Rightarrow> string \<times> ('g, 'x) world" where
  "read_timestamp E w = (case now_isoformat E (ext w) of (s, x) \<Rightarrow> (s, w\<lparr>ext := x\<rparr>))"

definition post :: "('g, 'x) env \<Rightarrow> request \<Rightarrow> ('g, 'x) world \<Rightarrow> error + (response \<times> ('g, 'x) world)" where
  "post E r w = (case http_post E r (ext w) of
                   Inl e \<Rightarrow> Inl e
                 | Inr (resp, x) \<Rightarrow> Inr (resp, w\<lparr>ext := x\<rparr>))"

text \<open>The documented contract of \<open>random.randint(a, b)\<close>: a value \<open>a \<le> v \<le> b\<close>.\<close>

definition randint_in_range :: "('g, 'x) env \<Rightarrow> bool" where
  "randint_in_range E \<longleftrightarrow> (\<forall>a b g. a \<le> b \<longrightarrow> a \<le> fst (rand_int E a b g) \<and> fst (rand_int E a b g) \<le> b)"

subsection \<open>Python primitives used by the client\<close>

text \<open>
  Rounding to the nearest integer, ties to the even one, and with it rounding of a real
  number to the nearest IEEE 754 double: 53 significant bits, the exponent of a normal
  number at least \<open>-1022\<close>, ties to even.
\<close>

definition round_half_even :: "real \<Rightarrow> int" where
  "round_half_even r =
     (let f = \<lfloor>r\<rfloor> in
      if r - of_int f < 1 / 2 then f
      else if 1 / 2 < r - of_int f then f + 1
      else if even f then f else f + 1)"

definition double_of :: "real \<Rightarrow> real" where
  "double_of x =
     (if x = 0 then 0
      else let e = max \<lfloor>log 2 \<bar>x\<bar>\<rfloor> (- 1022);
               ulp = 2 powr of_int (e - 52)
           in of_int (round_half_even (x / ulp)) * ulp)"

text \<open>\<open>int(x)\<close> on a float truncates towards zero.\<close>

definition py_int :: "real \<Rightarrow> int" where
  "py_int r = (if 0 \<le> r then \<lfloor>r\<rfloor> else \<lceil>r\<rceil>)"

text \<open>
  \<open>int(time.time() * 1000) % 2**32\<close>, the seed used when none is given; the product is
  a product of doubles.
\<close>

definition time_seed :: "real \<Rightarrow> int" where
  "time_seed t = py_int (double_of (t * 1000)) mod 2 ^ 32"

text \<open>
  What \<open>range(x)\<close> and \<open>[v] * x\<close> accept as a count: an \<open>int\<close> (a \<open>bool\<close> is one);
  anything else raises \<open>TypeError\<close>.
\<close>

fun py_index :: "pyval \<Rightarrow> error + int" where
  "py_index (PInt i) = Inr i"
| "py_index (PBool b) = Inr (if b then 1 else 0)"
| "py_index _ = Inl TypeError"

text \<open>\<open>d.get(k, default)\<close>; on a value that is not a dict the attribute is missing.\<close>

fun py_get :: "pyval \<Rightarrow> string \<Rightarrow> pyval \<Rightarrow> error + pyval" where
  "py_get (PDict kvs) k dflt = Inr (case map_of kvs k of None \<Rightarrow> dflt | Some v \<Rightarrow> v)"
| "py_get _ k dflt = Inl AttributeError"

text \<open>\<open>d[k]\<close> with a string key.\<close>

fun py_getitem :: "pyval \<Rightarrow> string \<Rightarrow> error + pyval" where
  "py_getitem (PDict kvs) k = (case map_of kvs k of None \<Rightarrow> Inl KeyError | Some v \<Rightarrow> Inr v)"
| "py_getitem _ k = Inl TypeError"

text \<open>\<open>d[k] = v\<close>: an existing key keeps its place, a new one goes last.\<close>

fun py_setitem :: "pyval \<Rightarrow> string \<Rightarrow> pyval \<Rightarrow> error + pyval" where
  "py_setitem (PDict kvs) k v = Inr (PDict (AList.update k v kvs))"
| "py_setitem _ k v = Inl TypeError"

text \<open>\<open>k in d\<close> for the dict a submission returns.\<close>

fun py_contains :: "pyval \<Rightarrow> string \<Rightarrow> error + bool" where
  "py_contains (PDict kvs) k = Inr (k \<in> fst ` set kvs)"
| "py_contains _ k = Inl TypeError"

text \<open>
  \<open>x + n\<close> for an integer literal \<open>n\<close> (the code has \<open>120\<close>, which is exact as a double);
  with a float \<open>x\<close> the sum is a sum of doubles.
\<close>

fun py_add_int :: "pyval \<Rightarrow> int \<Rightarrow> error + pyval" where
  "py_add_int (PInt i) n = Inr (PInt (i + n))"
| "py_add_int (PBool b) n = Inr (PInt ((if b then 1 else 0) + n))"
| "py_add_int (PFloat r) n = Inr (PFloat (double_of (r + of_int n)))"
| "py_add_int _ n = Inl TypeError"

text \<open>The format specification \<open>:.2f\<close> of an f-string accepts numbers only.\<close>

fun py_format_2f :: "pyval \<Rightarrow> error + unit" where
  "py_format_2f (PInt i) = Inr ()"
| "py_format_2f (PBool b) = Inr ()"
| "py_format_2f (PFloat r) = Inr ()"
| "py_format_2f (PStr s) = Inl ValueError"
| "py_format_2f _ = Inl TypeError"

text \<open>\<open>str(n)\<close> for a length.\<close>

fun digit_char :: "nat \<Rightarrow> char" where
  "digit_char n = ''0123456789'' ! n"

fun str_nat :: "nat \<Rightarrow> string" where
  "str_nat n = (if n < 10 then [digit_char n] else str_nat (n div 10) @ [digit_char (n mod 10)])"

declare str_nat.simps [simp del]

section \<open>Problem generation (benchmark\_client.py)\<close>

text \<open>
  \<open>[random.randint(a, b) for _ in range(k)]\<close>, the draws taken in order from the global
  generator; \<open>range\<close> of a negative number is empty.
\<close>

fun randints :: "('g, 'x) env \<Rightarrow> int \<Rightarrow> int \<Rightarrow> nat \<Rightarrow> ('g, 'x) world \<Rightarrow> int list \<times> ('g, 'x) world" where
  "randints E a b 0 w = ([], w)"
| "randints E a b (Suc k) w =
     (case randint E a b w of (v, w1) \<Rightarrow>
      case randints E a b k w1 of (vs, w2) \<Rightarrow> (v # vs, w2))"

text \<open>
  The inner loop \<open>for j in range(n)\<close> of the matrix generators, for row \<open>i\<close> and the
  remaining columns \<open>js\<close>: \<open>0\<close> on the diagonal, \<open>random.randint(lo, hi)\<close> elsewhere.
\<close>

fun cost_row :: "('g, 'x) env \<Rightarrow> int \<Rightarrow> int \<Rightarrow> nat \<Rightarrow> nat list \<Rightarrow> ('g, 'x) world \<Rightarrow> int list \<times> ('g, 'x) world" where
  "cost_row E lo hi i [] w = ([], w)"
| "cost_row E lo hi i (j # js) w =
     (if i = j
      then (case cost_row E lo hi i js w of (row, w1) \<Rightarrow> (0 # row, w1))
      else (case randint E lo hi w of (v, w1) \<Rightarrow>
            case cost_row E lo hi i js w1 of (row, w2) \<Rightarrow> (v # row, w2)))"

text \<open>The outer loop \<open>for i in range(n)\<close>, for the remaining rows \<open>is\<close>.\<close>

fun cost_rows :: "('g, 'x) env \<Rightarrow> int \<Rightarrow> int \<Rightarrow> nat \<Rightarrow> nat list \<Rightarrow> ('g, 'x) world \<Rightarrow> int list list \<times> ('g, 'x) world" where
  "cost_rows E lo hi n [] w = ([], w)"
| "cost_rows E lo hi n (i # is) w =
     (case cost_row E lo hi i [0..<n] w of (row, w1) \<Rightarrow>
      case cost_rows E lo hi n is w1 of (rows, w2) \<Rightarrow> (row # rows, w2))"

text \<open>
  The truth value of a \<open>seed\<close> argument in \<open>if seed:\<close>: \<open>None\<close> is false, and so is the
  integer \<open>0\<close>.
\<close>

definition seed_is_true :: "int option \<Rightarrow> bool" where
  "seed_is_true seed = (case seed of None \<Rightarrow> False | Some s \<Rightarrow> s \<noteq> 0)"

text \<open>\<open>CuOptClient.generate_cost_matrix(num_locations, seed=None)\<close>.\<close>

definition generate_cost_matrix ::
  "('g, 'x) env \<Rightarrow> int \<Rightarrow> int option \<Rightarrow> ('g, 'x) world \<Rightarrow> int list list \<times> ('g, 'x) world" where
  "generate_cost_matrix E num_locations seed w =
     (let w1 = (if seed_is_true seed
                then seed_rng E (the seed) w
                else (case read_clock E w of (t, w') \<Rightarrow> seed_rng E (time_seed t) w'))
      in cost_rows E 5 100 (nat num_locations) [0..<nat num_locations] w1)"

text \<open>A matrix and a list of integers as they are written into a payload.\<close>

definition int_list :: "int list \<Rightarrow> pyval" where
  "int_list xs = PList (map PInt xs)"

definition int_matrix :: "int list list \<Rightarrow> pyval" where
  "int_matrix m = PList (map int_list m)"

text \<open>
  \<open>CuOptClient.build_vrp_payload\<close>.  The two counts are used by \<open>range\<close>, which raises
  \<open>TypeError\<close> unless they are integers; the other arguments are only stored.  An
  argument left out is \<open>PNone\<close>.  The \<open>demand\<close> field is a list holding the list of
  demands, as \<open>capacities\<close> is a list holding the list of capacities.
\<close>

definition build_vrp_payload ::
  "('g, 'x) env \<Rightarrow> pyval \<Rightarrow> pyval \<Rightarrow> pyval \<Rightarrow> pyval \<Rightarrow> pyval \<Rightarrow> pyval \<Rightarrow> pyval \<Rightarrow>
   ('g, 'x) world \<Rightarrow> error + (pyval \<times> ('g, 'x) world)" where
  "build_vrp_payload E num_vehicles num_locations vehicle_capacity time_limit
       time_windows demands service_times w =
     (case py_index num_locations of Inl e \<Rightarrow> Inl e | Inr nl \<Rightarrow>
      case generate_cost_matrix E nl None w of (cost_matrix, w1) \<Rightarrow>
      let num_tasks = nl - 1 in
      case (if demands = PNone
            then (case randints E 5 20 (nat num_tasks) w1 of (ds, w') \<Rightarrow> (int_list ds, w'))
            else (demands, w1)) of (demands1, w2) \<Rightarrow>
      case (if service_times = PNone
            then (case randints E 5 15 (nat num_tasks) w2 of (ss, w') \<Rightarrow> (int_list ss, w'))
            else (service_times, w2)) of (service_times1, w3) \<Rightarrow>
      let time_windows1 =
            (if time_windows = PNone
             then PList (replicate (nat num_tasks) (int_list [0, 480]))
             else time_windows) in
      case py_index num_vehicles of Inl e \<Rightarrow> Inl e | Inr nv \<Rightarrow>
      Inr (PDict
        [(''cost_matrix_data'', PDict [(''data'', PDict [(''0'', int_matrix cost_matrix)])]),
         (''fleet_data'', PDict
            [(''vehicle_locations'', PList (replicate (nat nv) (int_list [0, 0]))),
             (''capacities'', PList [PList (replicate (nat nv) vehicle_capacity)]),
             (''vehicle_time_windows'', PList (replicate (nat nv) (int_list [0, 480])))]),
         (''task_data'', PDict
            [(''task_locations'', int_list [1..nl - 1]),
             (''demand'', PList [demands1]),
             (''task_time_windows'', time_windows1),
             (''service_times'', service_times1)]),
         (''solver_config'', PDict [(''time_limit'', time_limit)])], w3))"

section \<open>The request/response client\<close>

text \<open>
  The timeout \<open>optimize\<close> passes to \<open>session.post\<close>: the argument if one is given,
  otherwise \<open>payload.get("solver_config", {}).get("time_limit", 30) + 120\<close>.
\<close>

definition request_timeout :: "pyval \<Rightarrow> pyval \<Rightarrow> error + pyval" where
  "request_timeout payload timeout =
     (if timeout = PNone
      then (case py_get payload ''solver_config'' (PDict []) of Inl e \<Rightarrow> Inl e | Inr sc \<Rightarrow>
            case py_get sc ''time_limit'' (PInt 30) of Inl e \<Rightarrow> Inl e | Inr limit \<Rightarrow>
            py_add_int limit 120)
      else Inr timeout)"

text \<open>
  \<open>CuOptClient.optimize(payload, timeout=None)\<close>.  Nothing is caught: an exception of
  \<open>session.post\<close> or of \<open>response.json()\<close> is the result.  The status code is stored, never
  tested.  The elapsed time is a difference of doubles.
\<close>

definition optimize ::
  "('g, 'x) env \<Rightarrow> string \<Rightarrow> pyval \<Rightarrow> pyval \<Rightarrow> ('g, 'x) world \<Rightarrow> error + (pyval \<times> ('g, 'x) world)" where
  "optimize E self_endpoint payload timeout w =
     (case request_timeout payload timeout of Inl e \<Rightarrow> Inl e | Inr t \<Rightarrow>
      case read_clock E w of (start, w1) \<Rightarrow>
      case post E \<lparr>req_url = self_endpoint @ ''/cuopt/cuopt'', req_json = payload,
                   req_timeout = t\<rparr> w1 of Inl e \<Rightarrow> Inl e | Inr (resp, w2) \<Rightarrow>
      case read_clock E w2 of (stop, w3) \<Rightarrow>
      let elapsed = double_of (stop - start) in
      case json_body resp of None \<Rightarrow> Inl JSONDecodeError | Some result \<Rightarrow>
      case py_setitem result ''_metadata''
             (PDict [(''response_time_seconds'', PFloat elapsed),
                     (''status_code'', PInt (status_code resp))]) of
        Inl e \<Rightarrow> Inl e
      | Inr result1 \<Rightarrow> Inr (result1, w3))"

text \<open>
  \<open>CuOptClient.optimize_fleet(num_vehicles, num_locations, vehicle_capacity=100,
  time_limit=30, **kwargs)\<close>.  The call \<open>build_vrp_payload(..., **kwargs)\<close> raises
  \<open>TypeError\<close> for a keyword that is not one of its remaining parameters.
\<close>

definition payload_keywords :: "string list" where
  "payload_keywords = [''time_windows'', ''demands'', ''service_times'']"

definition optimize_fleet ::
  "('g, 'x) env \<Rightarrow> string \<Rightarrow> pyval \<Rightarrow> pyval \<Rightarrow> pyval \<Rightarrow> pyval \<Rightarrow> (string \<times> pyval) list \<Rightarrow>
   ('g, 'x) world \<Rightarrow> error + (pyval \<times> ('g, 'x) world)" where
  "optimize_fleet E self_endpoint num_vehicles num_locations vehicle_capacity time_limit kwargs w =
     (if \<exists>k \<in> set (map fst kwargs). k \<notin> set payload_keywords then Inl TypeError
      else
        case build_vrp_payload E num_vehicles num_locations vehicle_capacity time_limit
               (case map_of kwargs ''time_windows'' of None \<Rightarrow> PNone | Some v \<Rightarrow> v)
               (case map_of kwargs ''demands'' of None \<Rightarrow> PNone | Some v \<Rightarrow> v)
               (case map_of kwargs ''service_times'' of None \<Rightarrow> PNone | Some v \<Rightarrow> v) w of
          Inl e \<Rightarrow> Inl e
        | Inr (payload, w1) \<Rightarrow> optimize E self_endpoint payload PNone w1)"

text \<open>
  The call \<open>self.optimize_fleet(**scenario)\<close>: the two required parameters must be among
  the keys (else \<open>TypeError\<close>), \<open>self\<close> must not be (it is already bound), the two
  defaulted parameters are taken from the dict when present, and every other entry
  goes to \<open>kwargs\<close>.
\<close>

definition fleet_parameters :: "string list" where
  "fleet_parameters = [''num_vehicles'', ''num_locations'', ''vehicle_capacity'', ''time_limit'']"

definition call_optimize_fleet ::
  "('g, 'x) env \<Rightarrow> string \<Rightarrow> (string \<times> pyval) list \<Rightarrow> ('g, 'x) world \<Rightarrow>
   error + (pyval \<times> ('g, 'x) world)" where
  "call_optimize_fleet E self_endpoint scenario w =
     (if ''self'' \<in> set (map fst scenario) then Inl TypeError
      else
        case map_of scenario ''num_vehicles'' of None \<Rightarrow> Inl TypeError | Some num_vehicles \<Rightarrow>
        case map_of scenario ''num_locations'' of None \<Rightarrow> Inl TypeError | Some num_locations \<Rightarrow>
        optimize_fleet E self_endpoint num_vehicles num_locations
          (case map_of scenario ''vehicle_capacity'' of None \<Rightarrow> PInt 100 | Some v \<Rightarrow> v)
          (case map_of scenario ''time_limit'' of None \<Rightarrow> PInt 30 | Some v \<Rightarrow> v)
          (filter (\<lambda>kv. fst kv \<notin> set fleet_parameters) scenario) w)"

section \<open>The benchmark runner\<close>

record iteration_record =
  iteration :: int
  response_time :: pyval
  success :: bool

record scenario_entry =
  config :: "(string \<times> pyval) list"
  results :: "iteration_record list"

text \<open>
  A key of the \<open>scenarios\<close> dict.  Python compares keys by value (\<open>1\<close>, \<open>1.0\<close> and
  \<open>True\<close> are one key), and a list or a dict is not hashable.
\<close>

datatype pykey = KNone | KNum real | KStr string

fun py_hash :: "pyval \<Rightarrow> error + pykey" where
  "py_hash PNone = Inr KNone"
| "py_hash (PBool b) = Inr (KNum (if b then 1 else 0))"
| "py_hash (PInt i) = Inr (KNum (of_int i))"
| "py_hash (PFloat r) = Inr (KNum r)"
| "py_hash (PStr s) = Inr (KStr s)"
| "py_hash _ = Inl TypeError"

record report =
  timestamp :: string
  endpoint :: string
  scenarios :: "(pykey \<times> scenario_entry) list"

text \<open>
  The inner loop of \<open>run_benchmark\<close>, \<open>for i in range(iterations_per_scenario)\<close>, for the
  remaining indices \<open>is\<close> and the records \<open>acc\<close> appended so far.  There is no
  \<open>try\<close>: an exception of the call ends the loop with that exception.
\<close>

fun run_iterations ::
  "('g, 'x) env \<Rightarrow> string \<Rightarrow> (string \<times> pyval) list \<Rightarrow> nat list \<Rightarrow> iteration_record list \<Rightarrow>
   ('g, 'x) world \<Rightarrow> error + (iteration_record list \<times> ('g, 'x) world)" where
  "run_iterations E self_endpoint scenario [] acc w = Inr (acc, w)"
| "run_iterations E self_endpoint scenario (i # is) acc w =
     (case call_optimize_fleet E self_endpoint scenario w of Inl e \<Rightarrow> Inl e | Inr (result, w1) \<Rightarrow>
      case py_getitem result ''_metadata'' of Inl e \<Rightarrow> Inl e | Inr meta \<Rightarrow>
      case py_getitem meta ''response_time_seconds'' of Inl e \<Rightarrow> Inl e | Inr rt \<Rightarrow>
      case py_contains result ''response'' of Inl e \<Rightarrow> Inl e | Inr ok \<Rightarrow>
      case py_format_2f rt of Inl e \<Rightarrow> Inl e | Inr u \<Rightarrow>
      run_iterations E self_endpoint scenario is
        (acc @ [\<lparr>iteration = int i + 1, response_time = rt, success = ok\<rparr>]) w1)"

text \<open>
  The outer loop \<open>for scenario in scenarios\<close>, for the remaining scenarios and the
  \<open>scenarios\<close> dict \<open>entries\<close> built so far.  The progress line reads
  \<open>scenario['num_vehicles']\<close> and \<open>scenario['num_locations']\<close>, which raise \<open>KeyError\<close> when
  missing.
\<close>

fun run_scenarios ::
  "('g, 'x) env \<Rightarrow> string \<Rightarrow> int \<Rightarrow> (string \<times> pyval) list list \<Rightarrow> (pykey \<times> scenario_entry) list \<Rightarrow>
   ('g, 'x) world \<Rightarrow> error + ((pykey \<times> scenario_entry) list \<times> ('g, 'x) world)" where
  "run_scenarios E self_endpoint iterations_per_scenario [] entries w = Inr (entries, w)"
| "run_scenarios E self_endpoint iterations_per_scenario (scenario # rest) entries w =
     (let name = (case map_of scenario ''name'' of
                    None \<Rightarrow> PStr (''scenario_'' @ str_nat (length entries))
                  | Some v \<Rightarrow> v) in
      if ''num_vehicles'' \<notin> set (map fst scenario) \<or> ''num_locations'' \<notin> set (map fst scenario)
      then Inl KeyError
      else
        case run_iterations E self_endpoint scenario [0..<nat iterations_per_scenario] [] w of
          Inl e \<Rightarrow> Inl e
        | Inr (scenario_results, w1) \<Rightarrow>
        case py_hash name of Inl e \<Rightarrow> Inl e | Inr key \<Rightarrow>
        run_scenarios E self_endpoint iterations_per_scenario rest
          (AList.update key \<lparr>config = scenario, results = scenario_results\<rparr> entries) w1)"

text \<open>\<open>CuOptClient.run_benchmark(scenarios, iterations_per_scenario=5)\<close>.\<close>

definition run_benchmark ::
  "('g, 'x) env \<Rightarrow> string \<Rightarrow> (string \<times> pyval) list list \<Rightarrow> int \<Rightarrow> ('g, 'x) world \<Rightarrow>
   error + (report \<times> ('g, 'x) world)" where
  "run_benchmark E self_endpoint scenario_list iterations_per_scenario w =
     (case read_timestamp E w of (ts, w1) \<Rightarrow>
      case run_scenarios E self_endpoint iterations_per_scenario scenario_list [] w1 of
        Inl e \<Rightarrow> Inl e
      | Inr (scs, w2) \<Rightarrow> Inr (\<lparr>timestamp = ts, endpoint = self_endpoint, scenarios = scs\<rparr>, w2))"

section \<open>The EV fleet example (example.py)\<close>

text \<open>The loop that draws one time window per task.\<close>

fun ev_time_windows :: "('g, 'x) env \<Rightarrow> nat \<Rightarrow> ('g, 'x) world \<Rightarrow> int list list \<times> ('g, 'x) world" where
  "ev_time_windows E 0 w = ([], w)"
| "ev_time_windows E (Suc k) w =
     (case randint E 480 900 w of (start, w1) \<Rightarrow>
      case randint E 60 180 w1 of (d, w2) \<Rightarrow>
      let finish = start + d in
      case ev_time_windows E k w2 of (tws, w3) \<Rightarrow> ([start, min finish 1080] # tws, w3))"

text \<open>
  \<open>generate_ev_fleet_problem\<close>; \<open>battery_capacity\<close> and \<open>avg_distance_per_delivery\<close> are
  accepted and not used.
\<close>

definition generate_ev_fleet_problem ::
  "('g, 'x) env \<Rightarrow> int \<Rightarrow> int \<Rightarrow> int \<Rightarrow> int \<Rightarrow> int \<Rightarrow> ('g, 'x) world \<Rightarrow> pyval \<times> ('g, 'x) world" where
  "generate_ev_fleet_problem E num_vehicles num_deliveries num_charging_stations
       battery_capacity avg_distance_per_delivery w =
     (case read_clock E w of (t, w0) \<Rightarrow>
      let w1 = seed_rng E (time_seed t) w0;
          total_locations = 1 + num_deliveries + num_charging_stations;
          num_tasks = num_deliveries in
      case cost_rows E 3 15 (nat total_locations) [0..<nat total_locations] w1 of (cost_matrix, w2) \<Rightarrow>
      case randints E 1 10 (nat num_tasks) w2 of (demands, w3) \<Rightarrow>
      case randints E 5 15 (nat num_tasks) w3 of (service_times, w4) \<Rightarrow>
      case ev_time_windows E (nat num_tasks) w4 of (time_windows, w5) \<Rightarrow>
      (PDict
        [(''cost_matrix_data'', PDict [(''data'', PDict [(''0'', int_matrix cost_matrix)])]),
         (''fleet_data'', PDict
            [(''vehicle_locations'', PList (replicate (nat num_vehicles) (int_list [0, 0]))),
             (''capacities'', PList [PList (replicate (nat num_vehicles) (PInt 50))]),
             (''vehicle_time_windows'', PList (replicate (nat num_vehicles) (int_list [480, 1080])))]),
         (''task_data'', PDict
            [(''task_locations'', int_list [1..num_tasks]),
             (''demand'', PList [int_list demands]),
             (''task_time_windows'', int_matrix time_windows),
             (''service_times'', int_list service_times)]),
         (''solver_config'', PDict [(''time_limit'', PInt 30)])], w5))"

section \<open>A programmable stand-in for the library and the service\<close>

text \<open>
  Used to run the model on concrete inputs.  The external state counts the external
  calls made so far; the clock and the service are functions of that count.  The
  generator is a small linear congruential one.
\<close>

definition mock_env :: "(nat \<Rightarrow> real) \<Rightarrow> (request \<Rightarrow> nat \<Rightarrow> error + response) \<Rightarrow> (nat, nat) env" where
  "mock_env clock service =
     \<lparr>rand_seed = (\<lambda>s. nat \<bar>s\<bar>),
      rand_int = (\<lambda>a b g. (a + int g mod (b - a + 1), (g * 75 + 74) mod 65537)),
      time_time = (\<lambda>x. (clock x, Suc x)),
      now_isoformat = (\<lambda>x. (''2026-01-01T00:00:00'', x)),
      http_post = (\<lambda>r x. case service r x of Inl e \<Rightarrow> Inl e | Inr resp \<Rightarrow> Inr (resp, Suc x))\<rparr>"

definition mock_world :: "(nat, nat) world" where
  "mock_world = \<lparr>rng = 1, ext = 0\<rparr>"

text \<open>A service that answers every request with status \<open>code\<close> and body \<open>body\<close>.\<close>

definition answering :: "int \<Rightarrow> pyval \<Rightarrow> request \<Rightarrow> nat \<Rightarrow> error + response" where
  "answering code body r x = Inr \<lparr>status_code = code, json_body = Some body\<rparr>"

text \<open>
  A service that answers with status \<open>200\<close> and the given body until \<open>n\<close> external calls
  have been made, and times out from then on.
\<close>

definition failing_from :: "nat \<Rightarrow> pyval \<Rightarrow> request \<Rightarrow> nat \<Rightarrow> error + response" where
  "failing_from n body r x =
     (if x < n then Inr \<lparr>status_code = 200, json_body = Some body\<rparr> else Inl NetworkError)"

text \<open>
  A service that records what it is sent: the external state is the list of the
  requests received so far, and every request is answered with the same response.
\<close>

definition spy_env :: "response \<Rightarrow> (nat, request list) env" where
  "spy_env resp =
     \<lparr>rand_seed = (\<lambda>s. nat \<bar>s\<bar>),
      rand_int = (\<lambda>a b g. (a, g)),
      time_time = (\<lambda>x. (0, x)),
      now_isoformat = (\<lambda>x. (''2026-01-01T00:00:00'', x)),
      http_post = (\<lambda>r x. Inr (resp, x @ [r]))\<rparr>"

text \<open>The requests the recording service has received once a call has returned.\<close>

definition received :: "error + (pyval \<times> ('g, request list) world) \<Rightarrow> error + request list" where
  "received r = (case r of Inl e \<Rightarrow> Inl e | Inr (v, w) \<Rightarrow> Inr (ext w))"

text \<open>The two bodies the specification's tests let the mocked service return.\<close>

definition solved_body :: pyval where
  "solved_body = PDict [(''response'', PDict [(''solver_response'',
                   PDict [(''status'', PInt 0), (''solution_cost'', PInt 123)])])]"

definition error_body :: pyval where
  "error_body = PDict [(''error'', PStr ''bad request'')]"

text \<open>A payload that only sets the solver's time limit.\<close>

definition small_payload :: pyval where
  "small_payload = PDict [(''solver_config'', PDict [(''time_limit'', PInt 30)])]"

text \<open>Scenario configurations: two without a name, and the same two carrying one.\<close>

definition scenario_A :: "(string \<times> pyval) list" where
  "scenario_A = [(''num_vehicles'', PInt 1), (''num_locations'', PInt 2)]"

definition scenario_B :: "(string \<times> pyval) list" where
  "scenario_B = [(''num_vehicles'', PInt 2), (''num_locations'', PInt 2), (''time_limit'', PInt 10)]"

definition named_A :: "(string \<times> pyval) list" where
  "named_A = (''name'', PStr ''A'') # scenario_A"

definition named_B :: "(string \<times> pyval) list" where
  "named_B = (''name'', PStr ''B'') # scenario_B"

section \<open>Reading results\<close>

text \<open>\<open>len(x)\<close>.\<close>

fun py_len :: "pyval \<Rightarrow> error + int" where
  "py_len (PList xs) = Inr (int (length xs))"
| "py_len (PDict kvs) = Inr (int (length kvs))"
| "py_len (PStr s) = Inr (int (length s))"
| "py_len _ = Inl TypeError"

text \<open>The value at \<open>v[k1][k2]...\<close>, if every key on the way is present.\<close>

fun py_path :: "pyval \<Rightarrow> string list \<Rightarrow> pyval option" where
  "py_path v [] = Some v"
| "py_path (PDict kvs) (k # ks) = (case map_of kvs k of None \<Rightarrow> None | Some u \<Rightarrow> py_path u ks)"
| "py_path _ (k # ks) = None"

text \<open>The same for the value a call returned; \<open>None\<close> when the call raised.\<close>

definition returned_field :: "error + (pyval \<times> 'w) \<Rightarrow> string list \<Rightarrow> pyval option" where
  "returned_field r ks = (case r of Inl e \<Rightarrow> None | Inr (v, w) \<Rightarrow> py_path v ks)"

section \<open>Conditions on scenarios and services\<close>

text \<open>
  A scenario the iteration call accepts: every key is a parameter of \<open>optimize_fleet\<close> or
  \<open>build_vrp_payload\<close>, the two counts are present and integers, and the time limit, if
  present, is a number.
\<close>

definition scenario_ok :: "(string \<times> pyval) list \<Rightarrow> bool" where
  "scenario_ok scenario \<longleftrightarrow>
     list_all (\<lambda>k. k \<in> set (fleet_parameters @ payload_keywords)) (map fst scenario) \<and>
     (case map_of scenario ''num_vehicles'' of None \<Rightarrow> False | Some v \<Rightarrow> \<not> isl (py_index v)) \<and>
     (case map_of scenario ''num_locations'' of None \<Rightarrow> False | Some v \<Rightarrow> \<not> isl (py_index v)) \<and>
     (case map_of scenario ''time_limit'' of None \<Rightarrow> True | Some v \<Rightarrow> \<not> isl (py_add_int v 120))"

text \<open>A service that answers every POST, in every state, with a body that decodes to a JSON object.\<close>

definition answers_objects :: "('g, 'x) env \<Rightarrow> bool" where
  "answers_objects E \<longleftrightarrow>
     (\<forall>r x. \<exists>resp x' body. http_post E r x = Inr (resp, x') \<and> json_body resp = Some (PDict body))"

text \<open>
  What is read off the outcome of \<open>run_benchmark\<close>: the keys of the \<open>scenarios\<close> mapping
  in stored order, for each entry the \<open>iteration\<close> fields of its \<open>results\<close> in stored
  order, and for each entry its \<open>config\<close>.  An exception stays the exception.
\<close>

definition report_names :: "error + (report \<times> 'w) \<Rightarrow> error + pykey list" where
  "report_names r = (case r of Inl e \<Rightarrow> Inl e | Inr (rep, w) \<Rightarrow> Inr (map fst (scenarios rep)))"

definition report_iterations :: "error + (report \<times> 'w) \<Rightarrow> error + int list list" where
  "report_iterations r =
     (case r of Inl e \<Rightarrow> Inl e
      | Inr (rep, w) \<Rightarrow> Inr (map (\<lambda>kv. map iteration (results (snd kv))) (scenarios rep)))"

definition report_configs :: "error + (report \<times> 'w) \<Rightarrow> error + (string \<times> pyval) list list" where
  "report_configs r =
     (case r of Inl e \<Rightarrow> Inl e | Inr (rep, w) \<Rightarrow> Inr (map (\<lambda>kv. config (snd kv)) (scenarios rep)))"

section \<open>Properties of rounding\<close>

text \<open>Integers below \<open>2 ^ 53\<close> in absolute value are doubles, and rounding keeps the sign.\<close>

lemma round_half_even_of_int: "round_half_even (of_int k) = k"
  by (simp add: round_half_even_def)

lemma double_of_int:
  assumes "\<bar>n\<bar> < 2 ^ 53"
  shows "double_of (of_int n) = of_int n"
proof (cases "n = 0")
  case True
  then show ?thesis by (simp add: double_of_def)
next
  case False
  define e where "e = \<lfloor>log 2 \<bar>real_of_int n\<bar>\<rfloor>"
  have pos: "0 < \<bar>real_of_int n\<bar>" using False by simp
  have one: "1 \<le> \<bar>real_of_int n\<bar>" using False by (simp add: abs_if)
  have "0 \<le> log 2 \<bar>real_of_int n\<bar>" using one by simp
  then have e0: "0 \<le> e" by (simp add: e_def)
  have "\<bar>real_of_int n\<bar> < 2 ^ 53"
    using assms by (metis of_int_abs of_int_less_numeral_power_cancel_iff)
  then have "\<bar>real_of_int n\<bar> < 2 powr 53" by simp
  then have "log 2 \<bar>real_of_int n\<bar> < 53"
    using pos by (simp add: log_less_iff)
  then have e52: "e \<le> 52" by (simp add: e_def floor_le_iff)
  define d where "d = nat (52 - e)"
  have d: "real_of_int (e - 52) = - real d" using e52 by (simp add: d_def)
  have ulp: "(2::real) powr real_of_int (e - 52) = 1 / 2 ^ d"
    unfolding d by (simp add: powr_minus powr_realpow inverse_eq_divide)
  then have ulp': "(2::real) powr (real_of_int e - 52) = 1 / 2 ^ d" by simp
  have m: "max e (- 1022) = e" using e0 by simp
  have q: "real_of_int n / (1 / 2 ^ d) = of_int (n * 2 ^ d)" by simp
  have "double_of (of_int n) = of_int (round_half_even (of_int n / (1 / 2 ^ d))) * (1 / 2 ^ d)"
    using False by (simp add: double_of_def Let_def e_def [symmetric] m ulp')
  also have "\<dots> = of_int (n * 2 ^ d) * (1 / 2 ^ d)"
    unfolding q round_half_even_of_int ..
  also have "\<dots> = of_int n" by simp
  finally show ?thesis .
qed

lemma round_half_even_ge_floor: "\<lfloor>r\<rfloor> \<le> round_half_even r"
  by (simp add: round_half_even_def Let_def)

lemma double_of_nonneg:
  assumes "0 \<le> x"
  shows "0 \<le> double_of x"
proof (cases "x = 0")
  case True
  then show ?thesis by (simp add: double_of_def)
next
  case False
  define ulp :: real where "ulp = 2 powr of_int (max \<lfloor>log 2 \<bar>x\<bar>\<rfloor> (- 1022) - 52)"
  have "0 < ulp" by (simp add: ulp_def)
  with assms have "0 \<le> x / ulp" by simp
  then have "0 \<le> \<lfloor>x / ulp\<rfloor>" by simp
  then have "0 \<le> round_half_even (x / ulp)"
    using round_half_even_ge_floor [of "x / ulp"] by linarith
  then have "0 \<le> of_int (round_half_even (x / ulp)) * ulp"
    using \<open>0 < ulp\<close> by simp
  moreover have "double_of x = of_int (round_half_even (x / ulp)) * ulp"
    using False by (simp add: double_of_def Let_def ulp_def)
  ultimately show ?thesis by simp
qed

lemma double_vals:
  "double_of 0 = 0" "double_of 2 = 2" "double_of (- 2) = - 2"
  "double_of 1000 = 1000" "double_of 4000 = 4000"
  using double_of_int [of 0] double_of_int [of 2] double_of_int [of "- 2"]
    double_of_int [of 1000] double_of_int [of 4000]
  by simp_all

lemma time_seed_vals: "time_seed 0 = 0" "time_seed 1 = 1000" "time_seed 4 = 4000"
  by (simp_all add: time_seed_def py_int_def double_vals)

section \<open>Properties of the generators\<close>

lemma randint_bounds:
  assumes "randint_in_range E" "a \<le> b"
  shows "a \<le> fst (randint E a b w) \<and> fst (randint E a b w) \<le> b"
  using assms unfolding randint_in_range_def randint_def
  by (simp add: split_beta)

lemma cost_row_length: "length (fst (cost_row E lo hi i js w)) = length js"
  by (induction js arbitrary: w) (auto simp: split_beta)

lemma cost_row_nth:
  assumes "randint_in_range E" "lo \<le> hi" "k < length js"
  shows "(js ! k = i \<longrightarrow> fst (cost_row E lo hi i js w) ! k = 0) \<and>
         (js ! k \<noteq> i \<longrightarrow> lo \<le> fst (cost_row E lo hi i js w) ! k \<and> fst (cost_row E lo hi i js w) ! k \<le> hi)"
  using assms(3)
proof (induction js arbitrary: w k)
  case Nil
  then show ?case by simp
next
  case (Cons j js)
  show ?case
  proof (cases k)
    case 0
    then show ?thesis
      using randint_bounds [OF assms(1,2), of w] by (auto simp: split_beta)
  next
    case (Suc m)
    with Cons.prems have "m < length js" by simp
    from Cons.IH [OF this] Suc show ?thesis
      by (auto simp: split_beta)
  qed
qed

lemma cost_rows_length: "length (fst (cost_rows E lo hi n rs w)) = length rs"
  by (induction rs arbitrary: w) (simp_all add: split_beta)

lemma cost_rows_nth:
  "k < length rs \<Longrightarrow> \<exists>w'. fst (cost_rows E lo hi n rs w) ! k = fst (cost_row E lo hi (rs ! k) [0..<n] w')"
proof (induction rs arbitrary: w k)
  case Nil
  then show ?case by simp
next
  case (Cons r rs)
  show ?case
  proof (cases k)
    case 0
    then show ?thesis by (auto simp: split_beta)
  next
    case (Suc m)
    with Cons.prems have "m < length rs" by simp
    from Cons.IH [OF this] Suc show ?thesis
      by (simp add: split_beta)
  qed
qed

lemma cost_rows_matrix:
  assumes "randint_in_range E" "lo \<le> hi" "i < n" "j < n"
  shows "length (fst (cost_rows E lo hi n [0..<n] w)) = n"
    and "length (fst (cost_rows E lo hi n [0..<n] w) ! i) = n"
    and "i = j \<Longrightarrow> fst (cost_rows E lo hi n [0..<n] w) ! i ! j = 0"
    and "i \<noteq> j \<Longrightarrow> lo \<le> fst (cost_rows E lo hi n [0..<n] w) ! i ! j \<and> fst (cost_rows E lo hi n [0..<n] w) ! i ! j \<le> hi"
proof -
  show "length (fst (cost_rows E lo hi n [0..<n] w)) = n"
    by (simp add: cost_rows_length)
  from cost_rows_nth [of i "[0..<n]" E lo hi n w] assms(3)
  obtain w' where row: "fst (cost_rows E lo hi n [0..<n] w) ! i = fst (cost_row E lo hi i [0..<n] w')"
    by auto
  show "length (fst (cost_rows E lo hi n [0..<n] w) ! i) = n"
    by (simp add: row cost_row_length)
  from cost_row_nth [OF assms(1,2), of j "[0..<n]" i w'] assms(4)
  have *: "(j = i \<longrightarrow> fst (cost_row E lo hi i [0..<n] w') ! j = 0) \<and>
        (j \<noteq> i \<longrightarrow> lo \<le> fst (cost_row E lo hi i [0..<n] w') ! j \<and> fst (cost_row E lo hi i [0..<n] w') ! j \<le> hi)"
    by simp
  show "i = j \<Longrightarrow> fst (cost_rows E lo hi n [0..<n] w) ! i ! j = 0"
    using * row by simp
  show "i \<noteq> j \<Longrightarrow> lo \<le> fst (cost_rows E lo hi n [0..<n] w) ! i ! j \<and> fst (cost_rows E lo hi n [0..<n] w) ! i ! j \<le> hi"
    using * row by auto
qed

text \<open>
  C8.  For every number of locations \<open>n \<ge> 0\<close> and every seed (given or not),
  \<open>generate_cost_matrix\<close> returns \<open>n\<close> rows of \<open>n\<close> entries each, every diagonal entry is
  \<open>0\<close> and every other entry is an integer between \<open>5\<close> and \<open>100\<close>, for a library whose
  \<open>randint(a, b)\<close> keeps its contract.
\<close>

theorem C8_cost_matrix_shape:
  assumes "randint_in_range E" and "0 \<le> n"
  shows "int (length (fst (generate_cost_matrix E n seed w))) = n \<and>
         (\<forall>i < nat n. int (length (fst (generate_cost_matrix E n seed w) ! i)) = n \<and>
            (\<forall>j < nat n.
               (i = j \<longrightarrow> fst (generate_cost_matrix E n seed w) ! i ! j = 0) \<and>
               (i \<noteq> j \<longrightarrow> 5 \<le> fst (generate_cost_matrix E n seed w) ! i ! j \<and>
                            fst (generate_cost_matrix E n seed w) ! i ! j \<le> 100)))"
proof -
  obtain w1 where m: "generate_cost_matrix E n seed w = cost_rows E 5 100 (nat n) [0..<nat n] w1"
    by (simp add: generate_cost_matrix_def Let_def)
  have le: "(5::int) \<le> 100" by simp
  show ?thesis
    unfolding m
    using cost_rows_matrix [OF assms(1) le, of _ "nat n" _ w1] assms(2)
    by (auto simp: cost_rows_length)
qed

lemma mock_randint_in_range: "randint_in_range (mock_env clock service)"
proof -
  have "a \<le> a + int g mod (b - a + 1) \<and> a + int g mod (b - a + 1) \<le> b" if "a \<le> b" for a b :: int and g :: nat
  proof -
    from that have pos: "0 < b - a + 1" by simp
    have "0 \<le> int g mod (b - a + 1)" using pos by (rule pos_mod_sign)
    moreover have "int g mod (b - a + 1) < b - a + 1" using pos by (rule pos_mod_bound)
    ultimately show ?thesis by arith
  qed
  then show ?thesis
    unfolding randint_in_range_def mock_env_def by simp
qed

lemmas mock_simps = mock_env_def mock_world_def answering_def seed_rng_def randint_def
  read_clock_def read_timestamp_def post_def

theorem C8_witness:
  "randint_in_range (mock_env real (answering 200 PNone)) \<and> (0::int) \<le> 2 \<and>
   fst (generate_cost_matrix (mock_env real (answering 200 PNone)) 2 (Some 7) mock_world) = [[0, 12], [28, 0]] \<and>
   int (length (fst (generate_cost_matrix (mock_env real (answering 200 PNone)) 2 (Some 7) mock_world))) = 2"
proof -
  have val: "fst (generate_cost_matrix (mock_env real (answering 200 PNone)) 2 (Some 7) mock_world) = [[0, 12], [28, 0]]"
    by (simp add: generate_cost_matrix_def seed_is_true_def mock_simps numeral_2_eq_2 upt_rec)
  show ?thesis
    using C8_cost_matrix_shape [OF mock_randint_in_range, of 2 real "answering 200 PNone" "Some 7" mock_world]
      mock_randint_in_range [of real "answering 200 PNone"] val
    by simp
qed

subsection \<open>Reproducibility of the cost matrix\<close>

text \<open>
  A seed different from \<open>0\<close> fixes the matrix whatever the clock and the earlier state
  of the generator are; the seed \<open>0\<close> is handled like a missing seed.
\<close>

lemma generate_cost_matrix_seed_zero:
  "generate_cost_matrix E n (Some 0) w = generate_cost_matrix E n None w"
  by (simp add: generate_cost_matrix_def seed_is_true_def)

lemma randint_rng_only:
  "rng w = rng w' \<Longrightarrow>
   fst (randint E a b w) = fst (randint E a b w') \<and> rng (snd (randint E a b w)) = rng (snd (randint E a b w'))"
  by (simp add: randint_def split_beta)

lemma cost_row_rng_only:
  "rng w = rng w' \<Longrightarrow>
   fst (cost_row E lo hi i js w) = fst (cost_row E lo hi i js w') \<and>
   rng (snd (cost_row E lo hi i js w)) = rng (snd (cost_row E lo hi i js w'))"
proof (induction js arbitrary: w w')
  case Nil
  then show ?case by simp
next
  case (Cons j js)
  show ?case
  proof (cases "i = j")
    case True
    with Cons.IH [OF Cons.prems] show ?thesis by (simp add: split_beta)
  next
    case False
    from randint_rng_only [OF Cons.prems, of E lo hi]
    have v: "fst (randint E lo hi w) = fst (randint E lo hi w')"
      and r: "rng (snd (randint E lo hi w)) = rng (snd (randint E lo hi w'))" by simp_all
    from Cons.IH [OF r] v False show ?thesis by (simp add: split_beta)
  qed
qed

lemma cost_rows_rng_only:
  "rng w = rng w' \<Longrightarrow>
   fst (cost_rows E lo hi n rs w) = fst (cost_rows E lo hi n rs w') \<and>
   rng (snd (cost_rows E lo hi n rs w)) = rng (snd (cost_rows E lo hi n rs w'))"
proof (induction rs arbitrary: w w')
  case Nil
  then show ?case by simp
next
  case (Cons r rs)
  from cost_row_rng_only [OF Cons.prems, of E lo hi r "[0..<n]"]
  have v: "fst (cost_row E lo hi r [0..<n] w) = fst (cost_row E lo hi r [0..<n] w')"
    and g: "rng (snd (cost_row E lo hi r [0..<n] w)) = rng (snd (cost_row E lo hi r [0..<n] w'))"
    by simp_all
  from Cons.IH [OF g] v show ?case by (simp add: split_beta)
qed

lemma generate_cost_matrix_seeded:
  "s \<noteq> 0 \<Longrightarrow> fst (generate_cost_matrix E n (Some s) w) = fst (generate_cost_matrix E n (Some s) w')"
  unfolding generate_cost_matrix_def Let_def seed_is_true_def
  using cost_rows_rng_only [of "seed_rng E s w" "seed_rng E s w'" E 5 100 "nat n" "[0..<nat n]"]
  by (simp add: seed_rng_def)

text \<open>
  C2.  The claim: for every number of locations and every supplied seed, two calls of
  \<open>generate_cost_matrix(n, s)\<close> return identical matrices.  At the supplied seed \<open>0\<close>
  the generator is seeded from the clock instead; with a stand-in clock that advances
  between the two calls, \<open>generate_cost_matrix(2, 0)\<close> called twice in a row returns two
  different matrices.
\<close>

theorem C2_seed_zero_not_reproducible:
  "fst (generate_cost_matrix (mock_env real (answering 200 PNone)) 2 (Some 0) mock_world)
     = [[0, 5], [79, 0]] \<and>
   fst (generate_cost_matrix (mock_env real (answering 200 PNone)) 2 (Some 0)
          (snd (generate_cost_matrix (mock_env real (answering 200 PNone)) 2 (Some 0) mock_world)))
     = [[0, 45], [38, 0]]"
  by (simp add: generate_cost_matrix_def seed_is_true_def mock_simps time_seed_vals double_vals
        numeral_2_eq_2 upt_rec)

subsection \<open>Time windows of the EV fleet example\<close>

lemma randints_length: "length (fst (randints E a b k w)) = k"
  by (induction k arbitrary: w) (simp_all add: split_beta)

lemma ev_time_windows_length: "length (fst (ev_time_windows E k w)) = k"
  by (induction k arbitrary: w) (simp_all add: split_beta Let_def)

lemma ev_time_windows_bounds:
  assumes "randint_in_range E"
  shows "\<forall>tw \<in> set (fst (ev_time_windows E k w)).
           \<exists>s e. tw = [s, e] \<and> 480 \<le> s \<and> s \<le> 900 \<and> s < e \<and> e \<le> 1080"
proof (induction k arbitrary: w)
  case 0
  show ?case by simp
next
  case (Suc k)
  have a: "(480::int) \<le> 900" and b: "(60::int) \<le> 180" by simp_all
  have s: "480 \<le> fst (randint E 480 900 w) \<and> fst (randint E 480 900 w) \<le> 900"
    by (rule randint_bounds [OF assms a])
  have d: "60 \<le> fst (randint E 60 180 (snd (randint E 480 900 w)))"
    using randint_bounds [OF assms b] by simp
  from s d Suc.IH show ?case
    by (auto simp: split_beta Let_def)
qed

text \<open>Concrete runs are evaluated outermost first.\<close>

lemmas eval_cong = prod.case_cong_weak let_weak_cong

text \<open>
  C10.  For every call of \<open>generate_ev_fleet_problem\<close>, the \<open>task_time_windows\<close> of the
  returned payload are pairs \<open>[start, end]\<close> with \<open>480 \<le> start \<le> 900\<close> and
  \<open>start < end \<le> 1080\<close>, for a library whose \<open>randint(a, b)\<close> keeps its contract.
\<close>

theorem C10_ev_time_windows:
  assumes "randint_in_range E"
  shows "\<exists>tws. py_path (fst (generate_ev_fleet_problem E num_vehicles num_deliveries
                                num_charging_stations battery_capacity avg_distance_per_delivery w))
                  [''task_data'', ''task_time_windows''] = Some (int_matrix tws) \<and>
               (\<forall>tw \<in> set tws. \<exists>s e. tw = [s, e] \<and> 480 \<le> s \<and> s \<le> 900 \<and> s < e \<and> e \<le> 1080)"
proof -
  obtain w4 where "py_path (fst (generate_ev_fleet_problem E num_vehicles num_deliveries
                                num_charging_stations battery_capacity avg_distance_per_delivery w))
                  [''task_data'', ''task_time_windows'']
                   = Some (int_matrix (fst (ev_time_windows E (nat num_deliveries) w4)))"
    by (simp add: generate_ev_fleet_problem_def split_beta Let_def)
  with ev_time_windows_bounds [OF assms, of "nat num_deliveries" w4] show ?thesis
    by blast
qed

theorem C10_witness:
  "randint_in_range (mock_env real (answering 200 PNone)) \<and>
   py_path (fst (generate_ev_fleet_problem (mock_env real (answering 200 PNone)) 1 1 0 100 5 mock_world))
     [''task_data'', ''task_time_windows''] = Some (int_matrix [[487, 643]])"
proof -
  have "py_path (fst (generate_ev_fleet_problem (mock_env real (answering 200 PNone)) 1 1 0 100 5 mock_world))
     [''task_data'', ''task_time_windows''] = Some (int_matrix [[487, 643]])"
    by (simp add: generate_ev_fleet_problem_def mock_simps time_seed_vals double_vals
        numeral_2_eq_2 cong: eval_cong)
  then show ?thesis
    using C10_ev_time_windows [OF mock_randint_in_range, of real "answering 200 PNone" 1 1 0 100 5 mock_world]
      mock_randint_in_range [of real "answering 200 PNone"]
    by simp
qed

section \<open>Properties of the payload\<close>

text \<open>The payload built when the three optional arguments are left out.\<close>

lemma build_vrp_payload_defaults:
  assumes "py_index num_locations = Inr nl" and "py_index num_vehicles = Inr nv"
  shows "\<exists>cm ds ss w'.
    build_vrp_payload E num_vehicles num_locations vehicle_capacity time_limit PNone PNone PNone w =
      Inr (PDict
        [(''cost_matrix_data'', PDict [(''data'', PDict [(''0'', int_matrix cm)])]),
         (''fleet_data'', PDict
            [(''vehicle_locations'', PList (replicate (nat nv) (int_list [0, 0]))),
             (''capacities'', PList [PList (replicate (nat nv) vehicle_capacity)]),
             (''vehicle_time_windows'', PList (replicate (nat nv) (int_list [0, 480])))]),
         (''task_data'', PDict
            [(''task_locations'', int_list [1..nl - 1]),
             (''demand'', PList [int_list ds]),
             (''task_time_windows'', PList (replicate (nat (nl - 1)) (int_list [0, 480]))),
             (''service_times'', int_list ss)]),
         (''solver_config'', PDict [(''time_limit'', time_limit)])], w') \<and>
    length ds = nat (nl - 1) \<and> length ss = nat (nl - 1)"
  using assms
  by (auto simp add: build_vrp_payload_def split_beta Let_def randints_length intro!: exI)

lemma py_len_int_list: "py_len (int_list xs) = Inr (int (length xs))"
  by (simp add: int_list_def)

lemma length_upto_from_1: "1 \<le> n \<Longrightarrow> int (length [1..n - 1]) = n - 1"
  by simp

text \<open>
  C3.  For \<open>num_locations = N \<ge> 2\<close> and an integer number of vehicles, with the three
  optional arguments left out, \<open>build_vrp_payload\<close> returns a payload whose
  \<open>task_locations\<close> are \<open>1..N-1\<close> (length \<open>N-1\<close>), whose \<open>service_times\<close> and
  \<open>task_time_windows\<close> have length \<open>N-1\<close>, and whose \<open>demand\<close> field is a list of one
  row, that row having length \<open>N-1\<close>.
\<close>

theorem C3_payload_task_lengths:
  assumes "2 \<le> N" and "py_index num_vehicles = Inr nv"
  shows "\<exists>payload w' ds ss tws.
      build_vrp_payload E num_vehicles (PInt N) vehicle_capacity time_limit PNone PNone PNone w
        = Inr (payload, w') \<and>
      py_path payload [''task_data'', ''task_locations''] = Some (int_list [1..N - 1]) \<and>
      py_len (int_list [1..N - 1]) = Inr (N - 1) \<and>
      py_path payload [''task_data'', ''demand''] = Some (PList [int_list ds]) \<and>
      py_len (int_list ds) = Inr (N - 1) \<and>
      py_path payload [''task_data'', ''service_times''] = Some (int_list ss) \<and>
      py_len (int_list ss) = Inr (N - 1) \<and>
      py_path payload [''task_data'', ''task_time_windows''] = Some (PList tws) \<and>
      py_len (PList tws) = Inr (N - 1)"
proof -
  have idx: "py_index (PInt N) = Inr N" by simp
  from build_vrp_payload_defaults [OF idx assms(2), of E vehicle_capacity time_limit w]
  obtain cm ds ss w' where
    b: "build_vrp_payload E num_vehicles (PInt N) vehicle_capacity time_limit PNone PNone PNone w =
      Inr (PDict
        [(''cost_matrix_data'', PDict [(''data'', PDict [(''0'', int_matrix cm)])]),
         (''fleet_data'', PDict
            [(''vehicle_locations'', PList (replicate (nat nv) (int_list [0, 0]))),
             (''capacities'', PList [PList (replicate (nat nv) vehicle_capacity)]),
             (''vehicle_time_windows'', PList (replicate (nat nv) (int_list [0, 480])))]),
         (''task_data'', PDict
            [(''task_locations'', int_list [1..N - 1]),
             (''demand'', PList [int_list ds]),
             (''task_time_windows'', PList (replicate (nat (N - 1)) (int_list [0, 480]))),
             (''service_times'', int_list ss)]),
         (''solver_config'', PDict [(''time_limit'', time_limit)])], w')"
    and ds: "length ds = nat (N - 1)" and ss: "length ss = nat (N - 1)"
    by blast
  from assms(1) have pos: "0 < N" by arith
  have l1: "py_len (int_list [1..N - 1]) = Inr (N - 1)"
    using pos by (simp add: py_len_int_list)
  have l2: "py_len (int_list ds) = Inr (N - 1)" using pos by (simp add: py_len_int_list ds)
  have l3: "py_len (int_list ss) = Inr (N - 1)" using pos by (simp add: py_len_int_list ss)
  have l4: "py_len (PList (replicate (nat (N - 1)) (int_list [0, 480]))) = Inr (N - 1)"
    using pos by simp
  show ?thesis
    apply (rule exI [where x = "PDict
        [(''cost_matrix_data'', PDict [(''data'', PDict [(''0'', int_matrix cm)])]),
         (''fleet_data'', PDict
            [(''vehicle_locations'', PList (replicate (nat nv) (int_list [0, 0]))),
             (''capacities'', PList [PList (replicate (nat nv) vehicle_capacity)]),
             (''vehicle_time_windows'', PList (replicate (nat nv) (int_list [0, 480])))]),
         (''task_data'', PDict
            [(''task_locations'', int_list [1..N - 1]),
             (''demand'', PList [int_list ds]),
             (''task_time_windows'', PList (replicate (nat (N - 1)) (int_list [0, 480]))),
             (''service_times'', int_list ss)]),
         (''solver_config'', PDict [(''time_limit'', time_limit)])]"])
    apply (rule exI [where x = w'])
    apply (rule exI [where x = ds])
    apply (rule exI [where x = ss])
    apply (rule exI [where x = "replicate (nat (N - 1)) (int_list [0, 480])"])
    using b l1 l2 l3 l4 apply simp
    done
qed


theorem C3_witness:
  "(2::int) \<le> 2 \<and> py_index (PInt 1) = Inr 1 \<and>
   build_vrp_payload (mock_env real (answering 200 PNone)) (PInt 1) (PInt 2) (PInt 100) (PInt 30)
       PNone PNone PNone mock_world =
     Inr (PDict
        [(''cost_matrix_data'', PDict [(''data'', PDict [(''0'', int_matrix [[0, 5], [79, 0]])])]),
         (''fleet_data'', PDict
            [(''vehicle_locations'', PList [int_list [0, 0]]),
             (''capacities'', PList [PList [PInt 100]]),
             (''vehicle_time_windows'', PList [int_list [0, 480]])]),
         (''task_data'', PDict
            [(''task_locations'', int_list [1]),
             (''demand'', PList [int_list [13]]),
             (''task_time_windows'', PList [int_list [0, 480]]),
             (''service_times'', int_list [13])]),
         (''solver_config'', PDict [(''time_limit'', PInt 30)])],
        \<lparr>rng = 51790, ext = Suc 0\<rparr>)"
proof -
  have run: "build_vrp_payload (mock_env real (answering 200 PNone)) (PInt 1) (PInt 2) (PInt 100) (PInt 30)
       PNone PNone PNone mock_world =
     Inr (PDict
        [(''cost_matrix_data'', PDict [(''data'', PDict [(''0'', int_matrix [[0, 5], [79, 0]])])]),
         (''fleet_data'', PDict
            [(''vehicle_locations'', PList [int_list [0, 0]]),
             (''capacities'', PList [PList [PInt 100]]),
             (''vehicle_time_windows'', PList [int_list [0, 480]])]),
         (''task_data'', PDict
            [(''task_locations'', int_list [1]),
             (''demand'', PList [int_list [13]]),
             (''task_time_windows'', PList [int_list [0, 480]]),
             (''service_times'', int_list [13])]),
         (''solver_config'', PDict [(''time_limit'', PInt 30)])],
        \<lparr>rng = 51790, ext = Suc 0\<rparr>)"
    by (simp add: build_vrp_payload_def generate_cost_matrix_def seed_is_true_def mock_simps
        time_seed_vals double_vals numeral_2_eq_2 cong: eval_cong)
  have hyps: "(2::int) \<le> 2" "py_index (PInt 1) = Inr 1" by simp_all
  from C3_payload_task_lengths [OF hyps, of "mock_env real (answering 200 PNone)" "PInt 100" "PInt 30" mock_world]
    run hyps
  show ?thesis by simp
qed

text \<open>
  The claim as stated gives the \<open>demand\<close> field itself the length \<open>N-1\<close>; for \<open>N = 3\<close>
  that field has length \<open>1\<close>.
\<close>

theorem C3_counterexample:
  "map_option py_len
     (returned_field
        (build_vrp_payload (mock_env real (answering 200 PNone)) (PInt 1) (PInt 3) (PInt 100) (PInt 30)
           PNone PNone PNone mock_world)
        [''task_data'', ''demand'']) = Some (Inr 1) \<and> (1::int) \<noteq> 3 - 1"
proof -
  have "py_index (PInt 3) = Inr 3" and "py_index (PInt 1) = Inr 1" by simp_all
  from build_vrp_payload_defaults [OF this, of "mock_env real (answering 200 PNone)" "PInt 100" "PInt 30" mock_world]
  show ?thesis
    by (auto simp: returned_field_def)
qed

section \<open>Properties of the client\<close>

lemmas demo_defs = solved_body_def error_body_def small_payload_def scenario_A_def scenario_B_def
  named_A_def named_B_def

lemma optimize_post_raises:
  assumes "request_timeout payload timeout = Inr t"
    and "post E \<lparr>req_url = self_endpoint @ ''/cuopt/cuopt'', req_json = payload, req_timeout = t\<rparr>
           (snd (read_clock E w)) = Inl e"
  shows "optimize E self_endpoint payload timeout w = Inl e"
  using assms by (simp add: optimize_def split_beta)

lemma spy_optimize_received:
  assumes "request_timeout payload timeout = Inr t"
  shows "received (optimize (spy_env \<lparr>status_code = code, json_body = Some (PDict body)\<rparr>)
                     self_endpoint payload timeout w)
           = Inr (ext w @ [\<lparr>req_url = self_endpoint @ ''/cuopt/cuopt'', req_json = payload,
                             req_timeout = t\<rparr>])"
  using assms
  by (simp add: optimize_def received_def spy_env_def read_clock_def post_def)

text \<open>
  C4.  When \<open>optimize\<close> is called without a timeout on a payload whose
  \<open>solver_config.time_limit\<close> is the integer \<open>limit\<close>, the request it makes carries the
  timeout \<open>limit + 120\<close>: the call is the call with that timeout given, an exception of
  the POST of exactly that request is the outcome of the call, and a service that
  records what it receives has received that one request more.  For \<open>30\<close> it is \<open>150\<close>.
\<close>

theorem C4_default_timeout:
  assumes "map_of items ''solver_config'' = Some (PDict solver)"
    and "map_of solver ''time_limit'' = Some (PInt limit)"
  shows "request_timeout (PDict items) PNone = Inr (PInt (limit + 120)) \<and>
         optimize E self_endpoint (PDict items) PNone w =
           optimize E self_endpoint (PDict items) (PInt (limit + 120)) w \<and>
         (\<forall>e. post E \<lparr>req_url = self_endpoint @ ''/cuopt/cuopt'', req_json = PDict items,
                        req_timeout = PInt (limit + 120)\<rparr> (snd (read_clock E w)) = Inl e
              \<longrightarrow> optimize E self_endpoint (PDict items) PNone w = Inl e) \<and>
         received (optimize (spy_env \<lparr>status_code = code, json_body = Some (PDict body)\<rparr>)
                     self_endpoint (PDict items) PNone w0)
           = Inr (ext w0 @ [\<lparr>req_url = self_endpoint @ ''/cuopt/cuopt'', req_json = PDict items,
                              req_timeout = PInt (limit + 120)\<rparr>])"
proof -
  have t: "request_timeout (PDict items) PNone = Inr (PInt (limit + 120))"
    using assms by (simp add: request_timeout_def)
  have same: "optimize E self_endpoint (PDict items) PNone w =
           optimize E self_endpoint (PDict items) (PInt (limit + 120)) w"
    using assms by (simp add: request_timeout_def optimize_def)
  have raises: "\<forall>e. post E \<lparr>req_url = self_endpoint @ ''/cuopt/cuopt'', req_json = PDict items,
                        req_timeout = PInt (limit + 120)\<rparr> (snd (read_clock E w)) = Inl e
              \<longrightarrow> optimize E self_endpoint (PDict items) PNone w = Inl e"
    using optimize_post_raises [OF t] by blast
  have spy: "received (optimize (spy_env \<lparr>status_code = code, json_body = Some (PDict body)\<rparr>)
                     self_endpoint (PDict items) PNone w0)
           = Inr (ext w0 @ [\<lparr>req_url = self_endpoint @ ''/cuopt/cuopt'', req_json = PDict items,
                              req_timeout = PInt (limit + 120)\<rparr>])"
    by (rule spy_optimize_received [OF t])
  from t same raises spy show ?thesis by blast
qed

theorem C4_witness:
  "map_of [(''solver_config'', PDict [(''time_limit'', PInt 30)])] ''solver_config''
     = Some (PDict [(''time_limit'', PInt 30)]) \<and>
   map_of [(''time_limit'', PInt 30)] ''time_limit'' = Some (PInt 30) \<and>
   request_timeout small_payload PNone = Inr (PInt 150) \<and>
   received (optimize (spy_env \<lparr>status_code = 200, json_body = Some solved_body\<rparr>)
               ''http://cuopt'' small_payload PNone \<lparr>rng = 0, ext = []\<rparr>)
     = Inr [\<lparr>req_url = ''http://cuopt/cuopt/cuopt'', req_json = small_payload,
              req_timeout = PInt 150\<rparr>]"
  using C4_default_timeout [of "[(''solver_config'', PDict [(''time_limit'', PInt 30)])]"
      "[(''time_limit'', PInt 30)]" 30 "mock_env real (answering 200 solved_body)" "''http://cuopt''"
      mock_world 200
      "[(''response'', PDict [(''solver_response'',
                   PDict [(''status'', PInt 0), (''solution_cost'', PInt 123)])])]"
      "\<lparr>rng = 0, ext = []\<rparr>"]
  by (simp add: small_payload_def solved_body_def)

lemma optimize_returns:
  assumes "request_timeout payload timeout = Inr t"
    and "read_clock E w = (start, w1)"
    and "post E \<lparr>req_url = self_endpoint @ ''/cuopt/cuopt'', req_json = payload, req_timeout = t\<rparr> w1
           = Inr (resp, w2)"
    and "read_clock E w2 = (stop, w3)"
    and "json_body resp = Some (PDict body)"
  shows "optimize E self_endpoint payload timeout w =
           Inr (PDict (AList.update ''_metadata''
                  (PDict [(''response_time_seconds'', PFloat (double_of (stop - start))),
                          (''status_code'', PInt (status_code resp))]) body), w3)"
  using assms by (simp add: optimize_def)

text \<open>
  C5.  Whatever the status code, when the response body decodes to a JSON object and the
  clock read after the request is not earlier than the one read before it, \<open>optimize\<close>
  returns normally: the decoded object with the key \<open>_metadata\<close> set, every other key as
  decoded, \<open>status_code\<close> the response's status code and \<open>response_time_seconds \<ge> 0\<close>.
\<close>

theorem C5_optimize_attaches_metadata:
  assumes "request_timeout payload timeout = Inr t"
    and "read_clock E w = (start, w1)"
    and "post E \<lparr>req_url = self_endpoint @ ''/cuopt/cuopt'', req_json = payload, req_timeout = t\<rparr> w1
           = Inr (resp, w2)"
    and "read_clock E w2 = (stop, w3)"
    and "start \<le> stop"
    and "json_body resp = Some (PDict body)"
  shows "\<exists>result elapsed.
           optimize E self_endpoint payload timeout w = Inr (PDict result, w3) \<and>
           map_of result ''_metadata'' =
             Some (PDict [(''response_time_seconds'', PFloat elapsed),
                          (''status_code'', PInt (status_code resp))]) \<and>
           0 \<le> elapsed \<and>
           (\<forall>k. k \<noteq> ''_metadata'' \<longrightarrow> map_of result k = map_of body k) \<and>
           fst ` set result = insert ''_metadata'' (fst ` set body)"
proof -
  let ?meta = "PDict [(''response_time_seconds'', PFloat (double_of (stop - start))),
                      (''status_code'', PInt (status_code resp))]"
  have "optimize E self_endpoint payload timeout w = Inr (PDict (AList.update ''_metadata'' ?meta body), w3)"
    by (rule optimize_returns [OF assms(1-4) assms(6)])
  moreover have "map_of (AList.update ''_metadata'' ?meta body) ''_metadata'' = Some ?meta"
    by (simp add: update_conv')
  moreover have "0 \<le> double_of (stop - start)" using assms(5) by (simp add: double_of_nonneg)
  moreover have "\<forall>k. k \<noteq> ''_metadata'' \<longrightarrow> map_of (AList.update ''_metadata'' ?meta body) k = map_of body k"
    by (simp add: update_conv')
  moreover have "fst ` set (AList.update ''_metadata'' ?meta body) = insert ''_metadata'' (fst ` set body)"
    by (simp add: dom_update)
  ultimately show ?thesis by blast
qed

theorem C5_witness:
  "request_timeout small_payload PNone = Inr (PInt 150) \<and> (0::real) \<le> 2 \<and>
   optimize (mock_env real (answering 200 solved_body)) ''http://cuopt'' small_payload PNone mock_world =
     Inr (PDict
       [(''response'', PDict [(''solver_response'',
            PDict [(''status'', PInt 0), (''solution_cost'', PInt 123)])]),
        (''_metadata'', PDict [(''response_time_seconds'', PFloat 2), (''status_code'', PInt 200)])],
       \<lparr>rng = 1, ext = 3\<rparr>)"
proof -
  let ?E = "mock_env real (answering 200 solved_body)"
  let ?body = "[(''response'', PDict [(''solver_response'',
            PDict [(''status'', PInt 0), (''solution_cost'', PInt 123)])])]"
  have h1: "request_timeout small_payload PNone = Inr (PInt 150)"
    by (simp add: request_timeout_def small_payload_def)
  have h2: "read_clock ?E mock_world = (0, \<lparr>rng = 1, ext = 1\<rparr>)"
    by (simp add: mock_simps)
  have h3: "post ?E \<lparr>req_url = ''http://cuopt'' @ ''/cuopt/cuopt'', req_json = small_payload,
                      req_timeout = PInt 150\<rparr> \<lparr>rng = 1, ext = 1\<rparr>
              = Inr (\<lparr>status_code = 200, json_body = Some (PDict ?body)\<rparr>, \<lparr>rng = 1, ext = 2\<rparr>)"
    by (simp add: mock_simps solved_body_def)
  have h4: "read_clock ?E \<lparr>rng = 1, ext = 2\<rparr> = (2, \<lparr>rng = 1, ext = 3\<rparr>)"
    by (simp add: mock_simps)
  have h5: "(0::real) \<le> 2" by simp
  have h6: "json_body \<lparr>status_code = 200, json_body = Some (PDict ?body)\<rparr> = Some (PDict ?body)"
    by simp
  have run: "optimize ?E ''http://cuopt'' small_payload PNone mock_world =
     Inr (PDict (AList.update ''_metadata''
            (PDict [(''response_time_seconds'', PFloat 2), (''status_code'', PInt 200)]) ?body),
          \<lparr>rng = 1, ext = 3\<rparr>)"
    using optimize_returns [OF h1 h2 h3 h4 h6] by (simp add: double_vals)
  from C5_optimize_attaches_metadata [OF h1 h2 h3 h4 h5 h6] run h1 h5
  show ?thesis by simp
qed

text \<open>
  The claim as stated covers every decodable body and no condition on the clock.  A body
  that decodes to a JSON array makes \<open>optimize\<close> raise \<open>TypeError\<close> at
  \<open>result["_metadata"] = ...\<close>; and \<open>time.time()\<close> is the wall clock, so with a clock set
  back during the request the recorded time is negative.
\<close>

theorem C5_counterexample:
  "optimize (mock_env real (answering 200 (PList []))) ''http://cuopt'' small_payload PNone mock_world
     = Inl TypeError \<and>
   optimize (mock_env (\<lambda>x. 10 - real x) (answering 200 error_body)) ''http://cuopt'' small_payload
       PNone mock_world
     = Inr (PDict
         [(''error'', PStr ''bad request''),
          (''_metadata'', PDict [(''response_time_seconds'', PFloat (- 2)), (''status_code'', PInt 200)])],
         \<lparr>rng = 1, ext = 3\<rparr>)"
  by (simp add: optimize_def request_timeout_def mock_simps demo_defs double_vals cong: eval_cong)

section \<open>Properties of the runner\<close>



lemma run_iterations_step:
  assumes "call_optimize_fleet E self_endpoint scenario w =
             Inr (PDict (AList.update ''_metadata''
                (PDict [(''response_time_seconds'', PFloat elapsed), (''status_code'', PInt code)]) body), w1)"
  shows "run_iterations E self_endpoint scenario (i # rest) acc w =
           run_iterations E self_endpoint scenario rest
             (acc @ [\<lparr>iteration = int i + 1, response_time = PFloat elapsed,
                       success = (''response'' \<in> fst ` set body)\<rparr>]) w1"
  using assms by (simp add: update_conv' dom_update)




text \<open>
  C9.  A scenario dict with a key that is not a parameter of \<open>optimize_fleet\<close> or
  \<open>build_vrp_payload\<close> (the key \<open>name\<close>, for one) makes the call
  \<open>self.optimize_fleet(**scenario)\<close> raise \<open>TypeError\<close>, and with it the iteration.
\<close>

theorem C9_unknown_key_raises_TypeError:
  assumes "k \<in> fst ` set scenario" and "k \<notin> set (fleet_parameters @ payload_keywords)"
  shows "call_optimize_fleet E self_endpoint scenario w = Inl TypeError \<and>
         run_iterations E self_endpoint scenario (i # rest) acc w = Inl TypeError"
proof -
  have "call_optimize_fleet E self_endpoint scenario w = Inl TypeError"
  proof (cases "''self'' \<in> fst ` set scenario \<or> map_of scenario ''num_vehicles'' = None
                 \<or> map_of scenario ''num_locations'' = None")
    case True
    then show ?thesis by (auto simp: call_optimize_fleet_def split: option.splits)
  next
    case False
    from assms have "k \<in> fst ` set (filter (\<lambda>kv. fst kv \<notin> set fleet_parameters) scenario)"
      by force
    with assms(2) have "\<exists>k \<in> set (map fst (filter (\<lambda>kv. fst kv \<notin> set fleet_parameters) scenario)).
                          k \<notin> set payload_keywords"
      by auto
    then show ?thesis
      using False by (auto simp: call_optimize_fleet_def optimize_fleet_def split: option.splits)
  qed
  then show ?thesis by simp
qed

theorem C9_witness:
  "''name'' \<in> fst ` set named_A \<and> ''name'' \<notin> set (fleet_parameters @ payload_keywords) \<and>
   call_optimize_fleet (mock_env real (answering 200 solved_body)) ''http://cuopt'' named_A mock_world
     = Inl TypeError"
proof -
  have h1: "''name'' \<in> fst ` set named_A" by (simp add: named_A_def)
  have h2: "''name'' \<notin> set (fleet_parameters @ payload_keywords)"
    by (simp add: fleet_parameters_def payload_keywords_def)
  from C9_unknown_key_raises_TypeError [OF h1 h2, of "mock_env real (answering 200 solved_body)"
      "''http://cuopt''" mock_world 0 "[]" "[]"] h1 h2
  show ?thesis by simp
qed

subsection \<open>Exceptions end the run\<close>

lemma run_iterations_append:
  "run_iterations E self_endpoint scenario (xs @ ys) acc w =
     (case run_iterations E self_endpoint scenario xs acc w of
        Inl e \<Rightarrow> Inl e
      | Inr (acc1, w1) \<Rightarrow> run_iterations E self_endpoint scenario ys acc1 w1)"
  by (induction xs arbitrary: acc w) (auto split: sum.splits prod.splits)

lemma run_iterations_raises:
  assumes "call_optimize_fleet E self_endpoint scenario w = Inl e"
  shows "run_iterations E self_endpoint scenario (i # rest) acc w = Inl e"
  using assms by simp

lemma run_scenarios_append:
  "run_scenarios E self_endpoint n (xs @ ys) entries w =
     (case run_scenarios E self_endpoint n xs entries w of
        Inl e \<Rightarrow> Inl e
      | Inr (entries1, w1) \<Rightarrow> run_scenarios E self_endpoint n ys entries1 w1)"
  by (induction xs arbitrary: entries w) (auto simp: Let_def split: sum.splits prod.splits)

lemma run_scenarios_raises:
  assumes "''num_vehicles'' \<in> fst ` set scenario" and "''num_locations'' \<in> fst ` set scenario"
    and "run_iterations E self_endpoint scenario [0..<nat n] [] w = Inl e"
  shows "run_scenarios E self_endpoint n (scenario # rest) entries w = Inl e"
  using assms by (simp add: Let_def)

text \<open>
  C7.  Whatever the scenarios and the number of iterations: when the scenarios before
  have been run, the first \<open>k\<close> iterations of a scenario have returned and the next
  submission raises an exception, \<open>run_benchmark\<close> ends with that exception.  Nothing
  catches it, and no report is returned, the records made so far included.
\<close>

theorem C7_exception_aborts_run:
  assumes "read_timestamp E w = (ts, w0)"
    and "run_scenarios E self_endpoint n earlier [] w0 = Inr (entries, w1)"
    and "''num_vehicles'' \<in> fst ` set scenario" and "''num_locations'' \<in> fst ` set scenario"
    and "k < nat n"
    and "run_iterations E self_endpoint scenario [0..<k] [] w1 = Inr (records, w2)"
    and "call_optimize_fleet E self_endpoint scenario w2 = Inl e"
  shows "run_benchmark E self_endpoint (earlier @ scenario # later) n w = Inl e"
proof -
  have split: "[0..<nat n] = [0..<k] @ k # [Suc k..<nat n]"
  proof -
    from assms(5) obtain d where d: "nat n = k + d" and "0 < d"
      by (metis less_imp_add_positive)
    have "[0..<k + d] = [0..<k] @ [k..<k + d]"
      by (rule upt_add_eq_append) simp
    moreover have "[k..<k + d] = k # [Suc k..<k + d]"
      using \<open>0 < d\<close> by (simp add: upt_conv_Cons)
    ultimately show ?thesis by (simp add: d)
  qed
  have "run_iterations E self_endpoint scenario [0..<nat n] [] w1 = Inl e"
    unfolding split run_iterations_append
    using assms(6) run_iterations_raises [OF assms(7)] by simp
  then have "run_scenarios E self_endpoint n (scenario # later) entries w1 = Inl e"
    by (rule run_scenarios_raises [OF assms(3,4)])
  then have "run_scenarios E self_endpoint n (earlier @ scenario # later) [] w0 = Inl e"
    unfolding run_scenarios_append using assms(2) by simp
  then show ?thesis
    using assms(1) by (simp add: run_benchmark_def)
qed


lemmas call_eval = call_optimize_fleet_def optimize_fleet_def fleet_parameters_def payload_keywords_def
  build_vrp_payload_def generate_cost_matrix_def seed_is_true_def
  optimize_def request_timeout_def mock_simps time_seed_vals double_vals numeral_2_eq_2

theorem C7_witness:
  "run_iterations (mock_env real (failing_from 6 solved_body)) ''http://cuopt'' scenario_A [0..<1] []
       mock_world =
     Inr ([\<lparr>iteration = 1, response_time = PFloat 2, success = True\<rparr>], \<lparr>rng = 51790, ext = 4\<rparr>) \<and>
   call_optimize_fleet (mock_env real (failing_from 6 solved_body)) ''http://cuopt'' scenario_A
       \<lparr>rng = 51790, ext = 4\<rparr> = Inl NetworkError \<and>
   run_benchmark (mock_env real (failing_from 6 solved_body)) ''http://cuopt'' [scenario_A, scenario_B] 3
       mock_world = Inl NetworkError"
proof -
  let ?E = "mock_env real (failing_from 6 solved_body)"
  have h1: "read_timestamp ?E mock_world = (''2026-01-01T00:00:00'', mock_world)"
    by (simp add: mock_simps)
  have h2: "run_scenarios ?E ''http://cuopt'' 3 [] [] mock_world = Inr ([], mock_world)"
    by simp
  have h3: "''num_vehicles'' \<in> fst ` set scenario_A" and h4: "''num_locations'' \<in> fst ` set scenario_A"
    by (simp_all add: scenario_A_def)
  have h5: "1 < nat 3" by simp
  have first: "call_optimize_fleet ?E ''http://cuopt'' scenario_A mock_world =
      Inr (PDict (AList.update ''_metadata''
             (PDict [(''response_time_seconds'', PFloat 2), (''status_code'', PInt 200)])
             [(''response'', PDict [(''solver_response'',
                  PDict [(''status'', PInt 0), (''solution_cost'', PInt 123)])])]),
           \<lparr>rng = 51790, ext = 4\<rparr>)"
    by (simp add: call_eval failing_from_def demo_defs cong: eval_cong)
  have h6: "run_iterations ?E ''http://cuopt'' scenario_A [0..<1] [] mock_world =
     Inr ([\<lparr>iteration = 1, response_time = PFloat 2, success = True\<rparr>], \<lparr>rng = 51790, ext = 4\<rparr>)"
    using run_iterations_step [OF first, of 0 "[]" "[]"] by simp
  have h7: "call_optimize_fleet ?E ''http://cuopt'' scenario_A \<lparr>rng = 51790, ext = 4\<rparr> = Inl NetworkError"
    by (simp add: call_eval failing_from_def demo_defs cong: eval_cong)
  from C7_exception_aborts_run [OF h1 h2 h3 h4 h5 h6 h7, of "[scenario_B]"] h6 h7
  show ?thesis by simp
qed

subsection \<open>A run of two scenarios\<close>

lemma build_vrp_payload_returns:
  assumes "py_index num_locations = Inr nl" and "py_index num_vehicles = Inr nv"
  shows "\<exists>cm fd td w'.
    build_vrp_payload E num_vehicles num_locations vehicle_capacity time_limit
        time_windows demands service_times w =
      Inr (PDict [(''cost_matrix_data'', cm), (''fleet_data'', fd), (''task_data'', td),
                  (''solver_config'', PDict [(''time_limit'', time_limit)])], w')"
  using assms by (simp add: build_vrp_payload_def split_beta Let_def)

lemma optimize_answered:
  assumes "answers_objects E" and "request_timeout payload timeout = Inr t"
  shows "\<exists>body elapsed code w'.
    optimize E self_endpoint payload timeout w =
      Inr (PDict (AList.update ''_metadata''
             (PDict [(''response_time_seconds'', PFloat elapsed), (''status_code'', PInt code)]) body), w')"
proof -
  obtain start w1 where c1: "read_clock E w = (start, w1)" by (cases "read_clock E w")
  let ?req = "\<lparr>req_url = self_endpoint @ ''/cuopt/cuopt'', req_json = payload, req_timeout = t\<rparr>"
  from assms(1) obtain resp x' body where
    "http_post E ?req (ext w1) = Inr (resp, x')" and b: "json_body resp = Some (PDict body)"
    unfolding answers_objects_def by blast
  then have p: "post E ?req w1 = Inr (resp, w1\<lparr>ext := x'\<rparr>)"
    by (simp add: post_def)
  obtain stop w3 where c2: "read_clock E (w1\<lparr>ext := x'\<rparr>) = (stop, w3)"
    by (cases "read_clock E (w1\<lparr>ext := x'\<rparr>)")
  from optimize_returns [OF assms(2) c1 p c2 b] show ?thesis by blast
qed

lemma request_timeout_solver_config:
  "request_timeout (PDict [(''cost_matrix_data'', cm), (''fleet_data'', fd), (''task_data'', td),
                  (''solver_config'', PDict [(''time_limit'', time_limit)])]) PNone
     = py_add_int time_limit 120"
  by (simp add: request_timeout_def)

lemma not_isl_Inr: "\<not> isl r \<Longrightarrow> \<exists>v. r = Inr v"
  by (cases r) auto

lemma scenario_ok_call:
  assumes "scenario_ok scenario" and "answers_objects E"
  shows "\<exists>body elapsed code w'.
    call_optimize_fleet E self_endpoint scenario w =
      Inr (PDict (AList.update ''_metadata''
             (PDict [(''response_time_seconds'', PFloat elapsed), (''status_code'', PInt code)]) body), w')"
proof -
  from assms(1) have keys: "\<forall>k \<in> fst ` set scenario. k \<in> set (fleet_parameters @ payload_keywords)"
    by (simp add: scenario_ok_def list_all_iff)
  then have noself: "''self'' \<notin> set (map fst scenario)"
    by (auto simp: fleet_parameters_def payload_keywords_def)
  from assms(1) have "\<exists>vv. map_of scenario ''num_vehicles'' = Some vv \<and> \<not> isl (py_index vv)"
    by (auto simp: scenario_ok_def split: option.splits)
  then obtain vv nv where vv: "map_of scenario ''num_vehicles'' = Some vv" "py_index vv = Inr nv"
    using not_isl_Inr by blast
  from assms(1) have "\<exists>lv. map_of scenario ''num_locations'' = Some lv \<and> \<not> isl (py_index lv)"
    by (auto simp: scenario_ok_def split: option.splits)
  then obtain lv nl where lv: "map_of scenario ''num_locations'' = Some lv" "py_index lv = Inr nl"
    using not_isl_Inr by blast
  let ?tl = "case map_of scenario ''time_limit'' of None \<Rightarrow> PInt 30 | Some v \<Rightarrow> v"
  let ?vc = "case map_of scenario ''vehicle_capacity'' of None \<Rightarrow> PInt 100 | Some v \<Rightarrow> v"
  let ?kw = "filter (\<lambda>kv. fst kv \<notin> set fleet_parameters) scenario"
  from assms(1) have "\<not> isl (py_add_int ?tl 120)"
    by (auto simp: scenario_ok_def split: option.splits)
  then obtain t where t: "py_add_int ?tl 120 = Inr t"
    using not_isl_Inr by blast
  from keys have kw: "\<not> (\<exists>k \<in> set (map fst ?kw). k \<notin> set payload_keywords)"
    by auto
  from build_vrp_payload_returns [OF lv(2) vv(2)]
  obtain cm fd td w1 where
    b: "build_vrp_payload E vv lv ?vc ?tl
          (case map_of ?kw ''time_windows'' of None \<Rightarrow> PNone | Some v \<Rightarrow> v)
          (case map_of ?kw ''demands'' of None \<Rightarrow> PNone | Some v \<Rightarrow> v)
          (case map_of ?kw ''service_times'' of None \<Rightarrow> PNone | Some v \<Rightarrow> v) w =
        Inr (PDict [(''cost_matrix_data'', cm), (''fleet_data'', fd), (''task_data'', td),
                  (''solver_config'', PDict [(''time_limit'', ?tl)])], w1)"
    by blast
  have rt: "request_timeout (PDict [(''cost_matrix_data'', cm), (''fleet_data'', fd), (''task_data'', td),
                  (''solver_config'', PDict [(''time_limit'', ?tl)])]) PNone = Inr t"
    unfolding request_timeout_solver_config by (rule t)
  from optimize_answered [OF assms(2) rt, of self_endpoint w1]
  obtain body elapsed code w' where
    o: "optimize E self_endpoint (PDict [(''cost_matrix_data'', cm), (''fleet_data'', fd), (''task_data'', td),
                  (''solver_config'', PDict [(''time_limit'', ?tl)])]) PNone w1 =
      Inr (PDict (AList.update ''_metadata''
             (PDict [(''response_time_seconds'', PFloat elapsed), (''status_code'', PInt code)]) body), w')"
    by blast
  have "call_optimize_fleet E self_endpoint scenario w =
      Inr (PDict (AList.update ''_metadata''
             (PDict [(''response_time_seconds'', PFloat elapsed), (''status_code'', PInt code)]) body), w')"
    unfolding call_optimize_fleet_def optimize_fleet_def
    using noself vv(1) lv(1) kw b o by simp
  then show ?thesis by blast
qed

lemma run_iterations_ok:
  assumes "scenario_ok scenario" and "answers_objects E"
  shows "\<exists>records w'. run_iterations E self_endpoint scenario idxs acc w = Inr (acc @ records, w') \<and>
           map iteration records = map (\<lambda>i. int i + 1) idxs"
proof (induction idxs arbitrary: acc w)
  case Nil
  show ?case by simp
next
  case (Cons i idxs)
  from scenario_ok_call [OF assms, of self_endpoint w]
  obtain body elapsed code w1 where
    c: "call_optimize_fleet E self_endpoint scenario w =
      Inr (PDict (AList.update ''_metadata''
             (PDict [(''response_time_seconds'', PFloat elapsed), (''status_code'', PInt code)]) body), w1)"
    by blast
  let ?r = "\<lparr>iteration = int i + 1, response_time = PFloat elapsed,
             success = (''response'' \<in> fst ` set body)\<rparr>"
  from Cons.IH [of "acc @ [?r]" w1]
  obtain records w' where
    r: "run_iterations E self_endpoint scenario idxs (acc @ [?r]) w1 = Inr ((acc @ [?r]) @ records, w')"
    and m: "map iteration records = map (\<lambda>i. int i + 1) idxs"
    by blast
  have "run_iterations E self_endpoint scenario (i # idxs) acc w = Inr (acc @ (?r # records), w')"
    unfolding run_iterations_step [OF c] using r by simp
  moreover have "map iteration (?r # records) = map (\<lambda>i. int i + 1) (i # idxs)"
    using m by simp
  ultimately show ?case by blast
qed


lemma scenario_ok_keys:
  assumes "scenario_ok scenario"
  shows "map_of scenario ''name'' = None"
    and "''num_vehicles'' \<in> set (map fst scenario)"
    and "''num_locations'' \<in> set (map fst scenario)"
proof -
  from assms have keys: "\<forall>k \<in> fst ` set scenario. k \<in> set (fleet_parameters @ payload_keywords)"
    by (simp add: scenario_ok_def list_all_iff)
  then have "''name'' \<notin> fst ` set scenario"
    by (auto simp: fleet_parameters_def payload_keywords_def)
  then show "map_of scenario ''name'' = None"
    by (simp add: map_of_eq_None_iff)
  from assms have "map_of scenario ''num_vehicles'' \<noteq> None" and "map_of scenario ''num_locations'' \<noteq> None"
    by (auto simp: scenario_ok_def split: option.splits)
  then show "''num_vehicles'' \<in> set (map fst scenario)" and "''num_locations'' \<in> set (map fst scenario)"
    by (simp_all add: map_of_eq_None_iff)
qed

lemma run_scenarios_unnamed_step:
  assumes "scenario_ok scenario" and "answers_objects E"
  shows "\<exists>records w'.
           map iteration records = map (\<lambda>i. int i + 1) [0..<nat n] \<and>
           run_scenarios E self_endpoint n (scenario # rest) entries w =
             run_scenarios E self_endpoint n rest
               (AList.update (KStr (''scenario_'' @ str_nat (length entries)))
                  \<lparr>config = scenario, results = records\<rparr> entries) w'"
proof -
  from run_iterations_ok [OF assms, of self_endpoint "[0..<nat n]" "[]" w]
  obtain records w' where
    r: "run_iterations E self_endpoint scenario [0..<nat n] [] w = Inr (records, w')"
    and m: "map iteration records = map (\<lambda>i. int i + 1) [0..<nat n]"
    by auto
  have "run_scenarios E self_endpoint n (scenario # rest) entries w =
             run_scenarios E self_endpoint n rest
               (AList.update (KStr (''scenario_'' @ str_nat (length entries)))
                  \<lparr>config = scenario, results = records\<rparr> entries) w'"
    using scenario_ok_keys [OF assms(1)] r by (simp add: Let_def)
  with m show ?thesis by blast
qed

lemma str_nat_0: "str_nat 0 = ''0''" and str_nat_1: "str_nat (Suc 0) = ''1''"
  by (simp_all add: str_nat.simps)

lemma iterations_three: "map (\<lambda>i. int i + 1) [0..<3] = [1, 2, 3]"
  by (simp add: numeral_3_eq_3)

text \<open>
  Without names the run is the one expected: for a service that answers each POST with
  a body decoding to a JSON object, and scenario configurations \<open>A\<close> and \<open>B\<close> whose keys
  are parameters of the iteration call, the report has exactly two entries, \<open>A\<close> under
  \<open>scenario_0\<close> then \<open>B\<close> under \<open>scenario_1\<close>, each with three records numbered
  \<open>1, 2, 3\<close> in stored order.
\<close>

lemma run_benchmark_unnamed_pair:
  assumes "answers_objects E" and "scenario_ok A" and "scenario_ok B"
  shows "report_names (run_benchmark E self_endpoint [A, B] 3 w)
           = Inr [KStr ''scenario_0'', KStr ''scenario_1''] \<and>
         report_configs (run_benchmark E self_endpoint [A, B] 3 w) = Inr [A, B] \<and>
         report_iterations (run_benchmark E self_endpoint [A, B] 3 w)
           = Inr [[1, 2, 3], [1, 2, 3]]"
proof -
  obtain ts w0 where t: "read_timestamp E w = (ts, w0)" by (cases "read_timestamp E w")
  from run_scenarios_unnamed_step [OF assms(2,1), of 3 self_endpoint "[B]" "[]" w0]
  obtain ra w1 where
    ma0: "map iteration ra = map (\<lambda>i. int i + 1) [0..<nat 3]"
    and sa0: "run_scenarios E self_endpoint 3 (A # [B]) [] w0 =
             run_scenarios E self_endpoint 3 [B]
               (AList.update (KStr (''scenario_'' @ str_nat (length ([] :: (pykey \<times> scenario_entry) list))))
                  \<lparr>config = A, results = ra\<rparr> []) w1"
    by blast
  have ma: "map iteration ra = [1, 2, 3]"
    using ma0 by (simp add: iterations_three)
  have sa: "run_scenarios E self_endpoint 3 [A, B] [] w0 =
             run_scenarios E self_endpoint 3 [B]
               [(KStr ''scenario_0'', \<lparr>config = A, results = ra\<rparr>)] w1"
    using sa0 by (simp add: str_nat_0 del: run_scenarios.simps(2))
  from run_scenarios_unnamed_step [OF assms(3,1), of 3 self_endpoint "[]"
      "[(KStr ''scenario_0'', \<lparr>config = A, results = ra\<rparr>)]" w1]
  obtain rb w2 where
    mb0: "map iteration rb = map (\<lambda>i. int i + 1) [0..<nat 3]"
    and sb0: "run_scenarios E self_endpoint 3 [B]
               [(KStr ''scenario_0'', \<lparr>config = A, results = ra\<rparr>)] w1 =
             run_scenarios E self_endpoint 3 []
               (AList.update (KStr (''scenario_'' @
                    str_nat (length [(KStr ''scenario_0'', \<lparr>config = A, results = ra\<rparr>)])))
                  \<lparr>config = B, results = rb\<rparr>
                  [(KStr ''scenario_0'', \<lparr>config = A, results = ra\<rparr>)]) w2"
    by blast
  have mb: "map iteration rb = [1, 2, 3]"
    using mb0 by (simp add: iterations_three)
  have sb: "run_scenarios E self_endpoint 3 [B]
               [(KStr ''scenario_0'', \<lparr>config = A, results = ra\<rparr>)] w1 =
             Inr ([(KStr ''scenario_0'', \<lparr>config = A, results = ra\<rparr>),
                   (KStr ''scenario_1'', \<lparr>config = B, results = rb\<rparr>)], w2)"
    using sb0 by (simp add: str_nat_1 del: run_scenarios.simps(2))
  have "run_benchmark E self_endpoint [A, B] 3 w =
          Inr (\<lparr>timestamp = ts, endpoint = self_endpoint,
                scenarios = [(KStr ''scenario_0'', \<lparr>config = A, results = ra\<rparr>),
                             (KStr ''scenario_1'', \<lparr>config = B, results = rb\<rparr>)]\<rparr>, w2)"
    unfolding run_benchmark_def using t sa sb by simp
  then show ?thesis
    using ma mb by (simp add: report_names_def report_iterations_def report_configs_def)
qed

lemma mock_answers_objects: "answers_objects (mock_env clock (answering code (PDict body)))"
  by (simp add: answers_objects_def mock_env_def answering_def)

lemma run_benchmark_unnamed_pair_example:
  "answers_objects (mock_env real (answering 200 solved_body)) \<and>
   scenario_ok scenario_A \<and> scenario_ok scenario_B \<and>
   report_names (run_benchmark (mock_env real (answering 200 solved_body)) ''http://cuopt''
                   [scenario_A, scenario_B] 3 mock_world)
     = Inr [KStr ''scenario_0'', KStr ''scenario_1''] \<and>
   report_configs (run_benchmark (mock_env real (answering 200 solved_body)) ''http://cuopt''
                   [scenario_A, scenario_B] 3 mock_world)
     = Inr [scenario_A, scenario_B] \<and>
   report_iterations (run_benchmark (mock_env real (answering 200 solved_body)) ''http://cuopt''
                   [scenario_A, scenario_B] 3 mock_world)
     = Inr [[1, 2, 3], [1, 2, 3]]"
proof -
  have h1: "answers_objects (mock_env real (answering 200 solved_body))"
    unfolding solved_body_def by (rule mock_answers_objects)
  have h2: "scenario_ok scenario_A" and h3: "scenario_ok scenario_B"
    by (simp_all add: scenario_ok_def scenario_A_def scenario_B_def fleet_parameters_def
        payload_keywords_def)
  from run_benchmark_unnamed_pair [OF h1 h2 h3, of "''http://cuopt''" mock_world] h1 h2 h3
  show ?thesis by simp
qed

text \<open>A key that is no parameter of the iteration call makes that call raise.\<close>

lemma unknown_key_call_raises:
  assumes "k \<in> fst ` set scenario" and "k \<notin> set (fleet_parameters @ payload_keywords)"
  shows "call_optimize_fleet E self_endpoint scenario w = Inl TypeError"
proof (cases "''self'' \<in> fst ` set scenario \<or> map_of scenario ''num_vehicles'' = None
               \<or> map_of scenario ''num_locations'' = None")
  case True
  then show ?thesis by (auto simp: call_optimize_fleet_def split: option.splits)
next
  case False
  from assms have "k \<in> fst ` set (filter (\<lambda>kv. fst kv \<notin> set fleet_parameters) scenario)"
    by force
  with assms(2) have "\<exists>k \<in> set (map fst (filter (\<lambda>kv. fst kv \<notin> set fleet_parameters) scenario)).
                        k \<notin> set payload_keywords"
    by auto
  then show ?thesis
    using False by (auto simp: call_optimize_fleet_def optimize_fleet_def split: option.splits)
qed

lemma run_benchmark_first_call_raises:
  assumes "''num_vehicles'' \<in> fst ` set scenario" and "''num_locations'' \<in> fst ` set scenario"
    and "0 < n"
    and "call_optimize_fleet E self_endpoint scenario (snd (read_timestamp E w)) = Inl e"
  shows "run_benchmark E self_endpoint (scenario # rest) n w = Inl e"
proof -
  from assms(3) have "[0..<nat n] = 0 # [Suc 0..<nat n]"
    by (simp add: upt_conv_Cons)
  then have "run_iterations E self_endpoint scenario [0..<nat n] [] (snd (read_timestamp E w)) = Inl e"
    using run_iterations_raises [OF assms(4)] by simp
  then have "run_scenarios E self_endpoint n (scenario # rest) [] (snd (read_timestamp E w)) = Inl e"
    by (rule run_scenarios_raises [OF assms(1,2)])
  then show ?thesis
    by (simp add: run_benchmark_def split_beta)
qed

lemma mock_read_timestamp: "snd (read_timestamp (mock_env clock service) w) = w"
  by (simp add: mock_simps)

text \<open>
  C1.  The claim: for scenario configurations \<open>A\<close> and \<open>B\<close>, each carrying its \<open>name\<close> and
  its \<open>num_vehicles\<close> and \<open>num_locations\<close> fields, and a service that answers each POST,
  \<open>run_benchmark(scenarios=[A, B], iterations_per_scenario=3)\<close> returns a report of two
  entries with three records each.  On the code no report is returned for such
  scenarios, whatever the service answers: \<open>run_benchmark\<close> reads
  \<open>scenario.get("name", ...)\<close> for the key of the entry and then passes the whole dict,
  the name included, as keyword arguments to \<open>optimize_fleet\<close>, so the first iteration
  call of a scenario that carries a name raises \<open>TypeError\<close> and ends the run.  This
  holds for every list of scenarios whose first one carries a name and every positive
  number of iterations.
\<close>

theorem C1_named_scenarios_raise:
  assumes "''name'' \<in> fst ` set A"
    and "''num_vehicles'' \<in> fst ` set A" and "''num_locations'' \<in> fst ` set A"
    and "0 < n"
  shows "run_benchmark E self_endpoint (A # others) n w = Inl TypeError"
proof -
  have "''name'' \<notin> set (fleet_parameters @ payload_keywords)"
    by (simp add: fleet_parameters_def payload_keywords_def)
  with assms(1) have "call_optimize_fleet E self_endpoint A (snd (read_timestamp E w)) = Inl TypeError"
    by (rule unknown_key_call_raises)
  with assms(2-4) show ?thesis
    by (rule run_benchmark_first_call_raises)
qed

theorem C1_witness:
  "''name'' \<in> fst ` set named_A \<and> ''num_vehicles'' \<in> fst ` set named_A \<and>
   ''num_locations'' \<in> fst ` set named_A \<and> (0::int) < 3 \<and>
   run_benchmark (mock_env real (answering 200 solved_body)) ''http://cuopt'' [named_A, named_B] 3
     mock_world = Inl TypeError"
proof -
  have h: "''name'' \<in> fst ` set named_A" "''num_vehicles'' \<in> fst ` set named_A"
    "''num_locations'' \<in> fst ` set named_A" "(0::int) < 3"
    by (simp_all add: demo_defs)
  from C1_named_scenarios_raise [OF h, of "mock_env real (answering 200 solved_body)"
      "''http://cuopt''" "[named_B]" mock_world] h
  show ?thesis by simp
qed

end
